theory Spec2Isabelle
  imports Main "HOL-Library.Sublist" "HOL-Library.AList"
begin

section \<open>Strings as Python uses them\<close>

text \<open>
  Python strings are modelled as \<^typ>\<open>string\<close>, one \<^typ>\<open>char\<close> per code point.
  Every identifier the program handles (resource ids, role ids, GUIDs, storage
  and vault names) is ASCII, and the model is about ASCII strings:
  \<open>lower\<close> maps \<open>A..Z\<close> to \<open>a..z\<close> and leaves every other character alone.
\<close>

definition lower_char :: "char \<Rightarrow> char" where
  "lower_char c =
     (let n = (of_char c :: nat) in if 65 \<le> n \<and> n \<le> 90 then char_of (n + 32) else c)"

definition lower :: "string \<Rightarrow> string" where
  "lower s = map lower_char s"

text \<open>\<open>p in s\<close> on two Python strings: \<open>p\<close> occurs in \<open>s\<close> as a contiguous substring.\<close>

definition str_in :: "string \<Rightarrow> string \<Rightarrow> bool" where
  "str_in p s = sublist p s"

text \<open>\<open>s.replace(c, '')\<close> for a one-character \<open>c\<close>.\<close>

definition remove_char :: "char \<Rightarrow> string \<Rightarrow> string" where
  "remove_char c s = filter (\<lambda>x. x \<noteq> c) s"

text \<open>The slice \<open>s[i:j]\<close> for \<open>0 \<le> i \<le> j\<close>; Python clips at the end of the string.\<close>

definition slice :: "nat \<Rightarrow> nat \<Rightarrow> 'a list \<Rightarrow> 'a list" where
  "slice i j s = drop i (take j s)"

text \<open>\<open>s.split(d)\<close> for a one-character separator: never empty, one part more than
  there are separators.\<close>

fun split_on :: "char \<Rightarrow> string \<Rightarrow> string list" where
  "split_on d [] = [[]]"
| "split_on d (c # cs) =
     (if c = d then [] # split_on d cs
      else (case split_on d cs of
              [] \<Rightarrow> [[c]]
            | p # ps \<Rightarrow> (c # p) # ps))"

section \<open>GUID normalization\<close>

text \<open>
  \<open>VaultRoleManager._normalize_guid\<close> and \<open>StorageRoleManager._normalize_guid\<close>
  (the two bodies are the same text):
  \<^verbatim>\<open>
    if not guid_str: return guid_str
    guid_str = guid_str.replace('-', '')
    if len(guid_str) == 32:
        return f"{guid_str[0:8]}-{guid_str[8:12]}-{guid_str[12:16]}-{guid_str[16:20]}-{guid_str[20:32]}"
    return guid_str
  \<close>
  \<open>guid_format\<close> is the f-string of the first \<open>return\<close>.
\<close>

definition guid_format :: "string \<Rightarrow> string" where
  "guid_format g =
     slice 0 8 g @ ''-'' @ slice 8 12 g @ ''-'' @ slice 12 16 g @ ''-''
       @ slice 16 20 g @ ''-'' @ slice 20 32 g"

definition normalize_guid :: "string \<Rightarrow> string" where
  "normalize_guid guid_str =
     (if guid_str = [] then guid_str
      else let g = remove_char CHR ''-'' guid_str in
        if length g = 32 then guid_format g else g)"

text \<open>The canonical shape 8-4-4-4-12: cutting the string at its hyphens gives exactly
  five groups, of 8, 4, 4, 4 and 12 characters.\<close>

definition canonical_shape :: "string \<Rightarrow> bool" where
  "canonical_shape s = (map length (split_on CHR ''-'' s) = [8, 4, 4, 4, 12])"

definition is_hex_digit :: "char \<Rightarrow> bool" where
  "is_hex_digit c = (c \<in> set ''0123456789abcdefABCDEF'')"

text \<open>The number of hexadecimal digits of a string, whatever stands between them.\<close>

definition hex_digit_length :: "string \<Rightarrow> nat" where
  "hex_digit_length s = length (filter is_hex_digit s)"

section \<open>Storage naming convention\<close>

text \<open>
  \<open>StorageRoleManager._matches_naming_convention\<close>: both names are lowercased, four
  patterns are built from the vault name, and the loop returns \<open>True\<close> at the first
  pattern that occurs in the storage name.
\<close>

definition matches_naming_convention :: "string \<Rightarrow> string \<Rightarrow> bool" where
  "matches_naming_convention storage_name vault_name =
     (let storage_lower = lower storage_name;
          vault_lower = lower vault_name;
          patterns = [vault_lower @ ''storage'',
                      vault_lower @ ''stor'',
                      ''stor'' @ vault_lower,
                      vault_lower @ ''st'']
      in list_ex (\<lambda>pattern. str_in pattern storage_lower) patterns)"

text \<open>
  The specification's wording, for comparison: a name contains a pattern
  case-insensitively when some contiguous part of the name equals the pattern up to
  the case of letters. \<open>ci_contains\<close> is the executable form of that.
\<close>

definition ci_contains :: "string \<Rightarrow> string \<Rightarrow> bool" where
  "ci_contains s p = sublist (lower p) (lower s)"

section \<open>Role mapping\<close>

definition STORAGE_ACCOUNT_CONTRIBUTOR_ROLE_ID :: string where
  "STORAGE_ACCOUNT_CONTRIBUTOR_ROLE_ID = ''17d1049b-9a84-46fb-8f53-869881c3d3ab''"

definition STORAGE_BLOB_DATA_OWNER_ROLE_ID :: string where
  "STORAGE_BLOB_DATA_OWNER_ROLE_ID = ''b7e6dc6d-f1e8-4753-8033-0f276bb0955c''"

definition STORAGE_BLOB_DATA_CONTRIBUTOR_ROLE_ID :: string where
  "STORAGE_BLOB_DATA_CONTRIBUTOR_ROLE_ID = ''ba92f5b4-2d11-453d-a403-e96b0029c9fe''"

definition owner_role_id :: string where
  "owner_role_id = ''8e3af657-a8ff-443c-a75c-2fe8c4bcb635''"

definition admin_role_id :: string where
  "admin_role_id = ''00482a5a-887f-4fb3-b363-3b7fe8e74483''"

text \<open>
  \<open>StorageRoleManager.get_storage_role_assignments_for_vault_role\<close>. The tests are
  substring tests (\<open>owner_role_id in vault_role_id\<close>), the Owner test first; the last
  branch logs a warning and returns the empty list.
\<close>

definition get_storage_role_assignments_for_vault_role :: "string \<Rightarrow> string list" where
  "get_storage_role_assignments_for_vault_role vault_role_id =
     (if str_in owner_role_id vault_role_id then
        [STORAGE_ACCOUNT_CONTRIBUTOR_ROLE_ID, STORAGE_BLOB_DATA_OWNER_ROLE_ID]
      else if str_in admin_role_id vault_role_id then
        [STORAGE_BLOB_DATA_CONTRIBUTOR_ROLE_ID]
      else [])"

text \<open>The role definition id of a built-in role in a subscription, the f-string
  \<^verbatim>\<open>/subscriptions/{subscription_id}/providers/Microsoft.Authorization/roleDefinitions/{role_id}\<close>
  of the handler and of \<open>assign_storage_roles_to_user\<close>.\<close>

definition role_definition :: "string \<Rightarrow> string \<Rightarrow> string" where
  "role_definition subscription_id role_id =
     ''/subscriptions/'' @ subscription_id
       @ ''/providers/Microsoft.Authorization/roleDefinitions/'' @ role_id"

section \<open>External collaborators\<close>

text \<open>
  The program talks to three services: the directory (Microsoft Graph), the resource
  inventory (storage accounts of a resource group, a vault with its tags) and the
  access-control provider (role assignments at a scope). A Python exception is a
  value; \<open>HttpResponseError\<close> carries \<open>str(ex)\<close>, every other exception class is
  \<open>OtherException\<close>.
\<close>

datatype py_exception = HttpResponseError string | OtherException string

record storage_account =
  sa_id :: string
  sa_name :: string
  sa_tags :: "(string \<times> string) list option"

record role_assignment =
  ra_name :: string
  ra_scope :: string
  ra_role_definition_id :: string
  ra_principal_id :: string
  ra_principal_type :: string

text \<open>The answer to a Graph request: the status code and, for a query, the \<open>id\<close>
  fields of the entries under \<open>value\<close>.\<close>

record graph_response =
  status_code :: nat
  value_ids :: "string list"

text \<open>
  What the services answer during one invocation. \<open>is_guid\<close> is the standard
  library's \<open>uuid.UUID\<close> accepting the string, \<open>uuid4\<close> the name it draws for a new
  assignment; \<open>graph_get url\<close> is \<open>None\<close> when the request (or getting its token)
  raises. The three \<open>fault\<close> fields say which provider calls raise.
\<close>

record env =
  is_guid :: "string \<Rightarrow> bool"
  uuid4 :: "string \<Rightarrow> string \<Rightarrow> string"
  graph_get :: "string \<Rightarrow> graph_response option"
  list_by_resource_group :: "string \<Rightarrow> string \<Rightarrow> py_exception + storage_account list"
  vault_tags :: "string \<Rightarrow> string \<Rightarrow> string \<Rightarrow> py_exception + (string \<times> string) list option"
  list_fault :: "string \<Rightarrow> py_exception option"
  create_fault :: "string \<Rightarrow> string \<Rightarrow> py_exception option"
  delete_fault :: "string \<Rightarrow> string \<Rightarrow> bool"

text \<open>The provider's state is the list of all role assignments; a call the program
  issues to change it is recorded, whether the provider carries it out or raises.\<close>

type_synonym store = "role_assignment list"

datatype provider_call =
    CreateCall string string string string string
  | DeleteCall string string

text \<open>\<open>role_assignments.list_for_scope(scope, filter="atScope()")\<close>\<close>

definition list_for_scope :: "env \<Rightarrow> store \<Rightarrow> string \<Rightarrow> py_exception + role_assignment list" where
  "list_for_scope e st scope =
     (case list_fault e scope of
        Some ex \<Rightarrow> Inl ex
      | None \<Rightarrow> Inr (filter (\<lambda>a. ra_scope a = scope) st))"

text \<open>\<open>role_assignments.create(scope, role_assignment_name, parameters)\<close>\<close>

definition create_assignment ::
  "env \<Rightarrow> store \<Rightarrow> string \<Rightarrow> string \<Rightarrow> string \<Rightarrow> string \<Rightarrow> string \<Rightarrow> py_exception + store" where
  "create_assignment e st scope name role_definition_id principal_id principal_type =
     (case create_fault e scope role_definition_id of
        Some ex \<Rightarrow> Inl ex
      | None \<Rightarrow> Inr (st @ [\<lparr>ra_name = name, ra_scope = scope,
                              ra_role_definition_id = role_definition_id,
                              ra_principal_id = principal_id,
                              ra_principal_type = principal_type\<rparr>]))"

text \<open>\<open>role_assignments.delete(scope, role_assignment_name)\<close>; \<open>None\<close> when it raises.\<close>

definition delete_assignment :: "env \<Rightarrow> store \<Rightarrow> string \<Rightarrow> string \<Rightarrow> store option" where
  "delete_assignment e st scope name =
     (if delete_fault e scope name then None
      else Some (filter (\<lambda>a. \<not> (ra_scope a = scope \<and> ra_name a = name)) st))"

section \<open>Principal resolution\<close>

text \<open>
  \<open>get_principal_id_for_user\<close> (both managers): one Graph query; the first entry's id
  when the status is 200 and there is an entry, \<open>None\<close> otherwise and on any exception.
\<close>

definition get_principal_id_for_user :: "env \<Rightarrow> string \<Rightarrow> string option" where
  "get_principal_id_for_user e user_upn =
     (case graph_get e (''https://graph.microsoft.com/v1.0/users?$filter=userPrincipalName eq ''
                          @ [CHR 0x27] @ user_upn @ [CHR 0x27]) of
        None \<Rightarrow> None
      | Some response \<Rightarrow>
          if status_code response = 200 then
            (case value_ids response of [] \<Rightarrow> None | user_id # _ \<Rightarrow> Some user_id)
          else None)"

text \<open>
  \<open>_detect_principal_type\<close> (both managers): three probes in a fixed order, the kind of
  the first that answers 200; \<open>ServicePrincipal\<close> when none does or a probe raises.
\<close>

definition detect_principal_type :: "env \<Rightarrow> string \<Rightarrow> string" where
  "detect_principal_type e principal_id =
     (case graph_get e (''https://graph.microsoft.com/v1.0/users/'' @ principal_id) of
        None \<Rightarrow> ''ServicePrincipal''
      | Some r1 \<Rightarrow>
          if status_code r1 = 200 then ''User''
          else (case graph_get e (''https://graph.microsoft.com/v1.0/servicePrincipals/'' @ principal_id) of
                  None \<Rightarrow> ''ServicePrincipal''
                | Some r2 \<Rightarrow>
                    if status_code r2 = 200 then ''ServicePrincipal''
                    else (case graph_get e (''https://graph.microsoft.com/v1.0/groups/'' @ principal_id) of
                            None \<Rightarrow> ''ServicePrincipal''
                          | Some r3 \<Rightarrow>
                              if status_code r3 = 200 then ''Group'' else ''ServicePrincipal'')))"

text \<open>
  The opening of both reconcilers:
  \<^verbatim>\<open>
    if not self._is_guid(principal_id):
        object_id = await self.get_principal_id_for_user(principal_id)
        if not object_id:
            return False
        principal_id = object_id
    principal_id = self._normalize_guid(principal_id)
  \<close>
  \<open>None\<close> is the \<open>return False\<close>.
\<close>

definition resolve_principal :: "env \<Rightarrow> string \<Rightarrow> string option" where
  "resolve_principal e principal_id =
     (if \<not> is_guid e principal_id then
        (case get_principal_id_for_user e principal_id of
           None \<Rightarrow> None
         | Some object_id \<Rightarrow>
             if object_id = [] then None else Some (normalize_guid object_id))
      else Some (normalize_guid principal_id))"

section \<open>Storage discovery\<close>

text \<open>The check on the vault's resource id that \<open>discover_associated_storage_accounts\<close>
  and \<open>get_vault_info\<close> share; the result is (subscription, resource group, vault name).\<close>

definition parse_vault_resource_id :: "string \<Rightarrow> (string \<times> string \<times> string) option" where
  "parse_vault_resource_id vault_resource_id =
     (let parts = split_on CHR ''/'' vault_resource_id in
      if length parts < 9 \<or> parts ! 6 \<noteq> ''Microsoft.KeyVault'' \<or> parts ! 7 \<noteq> ''vaults''
      then None
      else Some (parts ! 2, parts ! 4, parts ! 8))"

text \<open>\<open>account.tags and account.tags.get('AssociatedVault') == vault_name\<close>\<close>

definition tag_match :: "storage_account \<Rightarrow> string \<Rightarrow> bool" where
  "tag_match account vault_name =
     (case sa_tags account of
        None \<Rightarrow> False
      | Some tags \<Rightarrow> tags \<noteq> [] \<and> map_of tags ''AssociatedVault'' = Some vault_name)"

text \<open>The loop over \<open>accounts_in_rg\<close>: the tag test first, then the naming convention.\<close>

fun collect_associated :: "string \<Rightarrow> storage_account list \<Rightarrow> string list" where
  "collect_associated vault_name [] = []"
| "collect_associated vault_name (account # rest) =
     (if tag_match account vault_name then sa_id account # collect_associated vault_name rest
      else if matches_naming_convention (sa_name account) vault_name
        then sa_id account # collect_associated vault_name rest
      else collect_associated vault_name rest)"

text \<open>
  \<open>StorageRoleManager.discover_associated_storage_accounts\<close>: an invalid resource id
  and a failed listing both give the empty list.
\<close>

definition discover_associated_storage_accounts :: "env \<Rightarrow> string \<Rightarrow> string list" where
  "discover_associated_storage_accounts e vault_resource_id =
     (case parse_vault_resource_id vault_resource_id of
        None \<Rightarrow> []
      | Some (subscription_id, resource_group, vault_name) \<Rightarrow>
          (case list_by_resource_group e subscription_id resource_group of
             Inl ex \<Rightarrow> []
           | Inr accounts_in_rg \<Rightarrow>
               let storage_accounts = collect_associated vault_name accounts_in_rg in
               if storage_accounts = [] \<and> accounts_in_rg \<noteq> []
               then map sa_id accounts_in_rg
               else storage_accounts))"

text \<open>A storage resource is matched when its tag or its name links it to the vault.\<close>

definition matched :: "string \<Rightarrow> storage_account \<Rightarrow> bool" where
  "matched vault_name account =
     (tag_match account vault_name \<or> matches_naming_convention (sa_name account) vault_name)"

section \<open>The vault reconciler\<close>

text \<open>
  The two \<open>except\<close> clauses that close both reconcilers: an \<open>HttpResponseError\<close> whose
  text contains \<open>already exists\<close> or \<open>PrincipalNotFound\<close> gives \<open>True\<close>, every other
  exception gives \<open>False\<close>.
\<close>

definition handle_exception :: "py_exception \<Rightarrow> bool" where
  "handle_exception ex =
     (case ex of
        HttpResponseError msg \<Rightarrow>
          if str_in ''already exists'' msg then True
          else if str_in ''PrincipalNotFound'' msg then True
          else False
      | OtherException msg \<Rightarrow> False)"

text \<open>
  The loop of \<open>assign_role_to_user\<close> over the assignments at the scope. Its state is
  (\<open>role_already_assigned\<close>, \<open>has_owner_role\<close>, \<open>redundant_assignments\<close>):
  \<^verbatim>\<open>
    if assignment.principal_id == principal_id:
        if owner_role_id in assignment.role_definition_id:
            has_owner_role = True
        if assignment.role_definition_id == role_definition_id:
            role_already_assigned = True
        elif is_owner_role:
            redundant_assignments.append(assignment)
  \<close>
\<close>

fun scan_assignments ::
  "string \<Rightarrow> string \<Rightarrow> bool \<Rightarrow> role_assignment list
     \<Rightarrow> bool \<times> bool \<times> role_assignment list \<Rightarrow> bool \<times> bool \<times> role_assignment list" where
  "scan_assignments principal_id role_definition_id is_owner_role [] state = state"
| "scan_assignments principal_id role_definition_id is_owner_role (assignment # rest)
       (role_already_assigned, has_owner_role, redundant_assignments) =
     scan_assignments principal_id role_definition_id is_owner_role rest
       (if ra_principal_id assignment = principal_id then
          (let has_owner_role' =
                 (if str_in owner_role_id (ra_role_definition_id assignment) then True
                  else has_owner_role)
           in if ra_role_definition_id assignment = role_definition_id
                then (True, has_owner_role', redundant_assignments)
              else if is_owner_role
                then (role_already_assigned, has_owner_role', redundant_assignments @ [assignment])
              else (role_already_assigned, has_owner_role', redundant_assignments))
        else (role_already_assigned, has_owner_role, redundant_assignments))"

text \<open>
  The cleanup loop: one delete call per redundant assignment, in order; a delete that
  raises is logged and the loop goes on.
\<close>

fun remove_redundant ::
  "env \<Rightarrow> string \<Rightarrow> role_assignment list \<Rightarrow> store \<Rightarrow> store \<times> provider_call list" where
  "remove_redundant e scope [] st = (st, [])"
| "remove_redundant e scope (assignment # rest) st =
     (let st' = (case delete_assignment e st scope (ra_name assignment) of
                   None \<Rightarrow> st
                 | Some st1 \<Rightarrow> st1);
          (st'', calls) = remove_redundant e scope rest st'
      in (st'', DeleteCall scope (ra_name assignment) # calls))"

text \<open>
  \<open>VaultRoleManager.assign_role_to_user\<close>. The result is the returned boolean, the
  provider's state afterwards and the create and delete calls issued, in order.
  \<open>parts[2]\<close> on a resource id with fewer than three parts raises \<open>IndexError\<close>, which
  the last \<open>except\<close> clause turns into \<open>False\<close>.
\<close>

definition assign_role_to_user ::
  "env \<Rightarrow> store \<Rightarrow> string \<Rightarrow> string \<Rightarrow> string \<Rightarrow> bool \<times> store \<times> provider_call list" where
  "assign_role_to_user e st vault_resource_id role_definition_id principal_id =
     (let parts = split_on CHR ''/'' vault_resource_id in
      if length parts < 3 then (False, st, [])
      else
        (case resolve_principal e principal_id of
           None \<Rightarrow> (False, st, [])
         | Some pid \<Rightarrow>
            (let is_owner_role = str_in owner_role_id role_definition_id;
                 is_admin_role = str_in admin_role_id role_definition_id
             in case list_for_scope e st vault_resource_id of
                  Inl ex \<Rightarrow> (handle_exception ex, st, [])
                | Inr assignments \<Rightarrow>
                   (case scan_assignments pid role_definition_id is_owner_role assignments
                           (False, False, []) of
                      (role_already_assigned, has_owner_role, redundant_assignments) \<Rightarrow>
                        if \<not> is_owner_role \<and> has_owner_role \<and> \<not> is_admin_role then (True, st, [])
                        else if role_already_assigned then
                          (if is_owner_role \<and> redundant_assignments \<noteq> [] then
                             (case remove_redundant e vault_resource_id redundant_assignments st of
                                (st', calls) \<Rightarrow> (True, st', calls))
                           else (True, st, []))
                        else
                          (let role_assignment_name = uuid4 e vault_resource_id role_definition_id;
                               principal_type = detect_principal_type e pid;
                               call = CreateCall vault_resource_id role_assignment_name
                                        role_definition_id pid principal_type
                           in case create_assignment e st vault_resource_id role_assignment_name
                                     role_definition_id pid principal_type of
                                Inl ex \<Rightarrow> (handle_exception ex, st, [call])
                              | Inr st1 \<Rightarrow>
                                  if is_owner_role \<and> redundant_assignments \<noteq> [] then
                                    (case remove_redundant e vault_resource_id redundant_assignments st1 of
                                       (st2, calls) \<Rightarrow> (True, st2, call # calls))
                                  else (True, st1, [call]))))))"

section \<open>The storage reconciler\<close>

text \<open>
  \<open>StorageRoleManager._assign_role_to_storage_account\<close>: the loop returns \<open>True\<close> at
  the first assignment with this principal and this role definition; otherwise one
  create call. (\<open>role_id\<close> is used for logging only.)
\<close>

definition assign_role_to_storage_account ::
  "env \<Rightarrow> store \<Rightarrow> string \<Rightarrow> string \<Rightarrow> string \<Rightarrow> bool \<times> store \<times> provider_call list" where
  "assign_role_to_storage_account e st storage_resource_id role_definition_id principal_id =
     (if length (split_on CHR ''/'' storage_resource_id) < 3 then (False, st, [])
      else
        (case resolve_principal e principal_id of
           None \<Rightarrow> (False, st, [])
         | Some pid \<Rightarrow>
            (case list_for_scope e st storage_resource_id of
               Inl ex \<Rightarrow> (handle_exception ex, st, [])
             | Inr assignments \<Rightarrow>
                 if list_ex (\<lambda>assignment. ra_principal_id assignment = pid \<and>
                               ra_role_definition_id assignment = role_definition_id) assignments
                 then (True, st, [])
                 else
                   (let principal_type = detect_principal_type e pid;
                        role_assignment_name = uuid4 e storage_resource_id role_definition_id;
                        call = CreateCall storage_resource_id role_assignment_name
                                 role_definition_id pid principal_type
                    in case create_assignment e st storage_resource_id role_assignment_name
                              role_definition_id pid principal_type of
                         Inl ex \<Rightarrow> (handle_exception ex, st, [call])
                       | Inr st1 \<Rightarrow> (True, st1, [call])))))"

text \<open>
  \<open>assign_storage_roles_to_user\<close>. \<open>results\<close> is the dictionary storage name \<open>\<mapsto>\<close>
  (role id \<open>\<mapsto>\<close> success), an association list in insertion order. The inner loop runs
  over the mapped storage roles, the outer one over the storage resources;
  \<open>storage_resource_id.split('/')[2]\<close> is outside every \<open>try\<close>, so a resource id with
  fewer than three parts ends the call with \<open>IndexError\<close>.
\<close>

fun assign_each_role ::
  "env \<Rightarrow> string \<Rightarrow> string \<Rightarrow> string \<Rightarrow> string list
     \<Rightarrow> (string \<times> bool) list \<times> store \<times> provider_call list
     \<Rightarrow> (string \<times> bool) list \<times> store \<times> provider_call list" where
  "assign_each_role e storage_resource_id subscription_id principal_id [] state = state"
| "assign_each_role e storage_resource_id subscription_id principal_id (role_id # rest)
       (roles, st, calls) =
     (let role_definition_id = role_definition subscription_id role_id
      in case assign_role_to_storage_account e st storage_resource_id role_definition_id principal_id of
           (success, st', calls') \<Rightarrow>
             assign_each_role e storage_resource_id subscription_id principal_id rest
               (AList.update role_id success roles, st', calls @ calls'))"

fun assign_each_account ::
  "env \<Rightarrow> string list \<Rightarrow> string \<Rightarrow> string list
     \<Rightarrow> (string \<times> (string \<times> bool) list) list \<times> store \<times> provider_call list
     \<Rightarrow> (py_exception + (string \<times> (string \<times> bool) list) list) \<times> store \<times> provider_call list" where
  "assign_each_account e storage_role_ids principal_id [] (results, st, calls) =
     (Inr results, st, calls)"
| "assign_each_account e storage_role_ids principal_id (storage_resource_id # rest)
       (results, st, calls) =
     (let parts = split_on CHR ''/'' storage_resource_id;
          storage_name = last parts
      in if length parts < 3 then (Inl (OtherException ''IndexError''), st, calls)
         else
           (case assign_each_role e storage_resource_id (parts ! 2) principal_id
                   storage_role_ids ([], st, calls) of
              (roles, st', calls') \<Rightarrow>
                assign_each_account e storage_role_ids principal_id rest
                  (AList.update storage_name roles results, st', calls')))"

definition assign_storage_roles_to_user ::
  "env \<Rightarrow> store \<Rightarrow> string list \<Rightarrow> string \<Rightarrow> string
     \<Rightarrow> (py_exception + (string \<times> (string \<times> bool) list) list) \<times> store \<times> provider_call list" where
  "assign_storage_roles_to_user e st storage_resource_ids vault_role_definition_id principal_id =
     (if storage_resource_ids = [] then (Inr [], st, [])
      else
        (let storage_role_ids = get_storage_role_assignments_for_vault_role vault_role_definition_id
         in if storage_role_ids = [] then (Inr [], st, [])
            else assign_each_account e storage_role_ids principal_id storage_resource_ids
                   ([], st, [])))"

section \<open>The orchestrator\<close>

text \<open>
  \<open>VaultRoleManager.get_vault_info\<close>, an \<open>async def\<close>: the dictionary it builds, of
  which only the \<open>tags\<close> entry (\<open>vault.tags or {}\<close>) is read later, or \<open>None\<close> for an
  invalid resource id, a vault that is not found and any other exception.
\<close>

definition get_vault_info :: "env \<Rightarrow> string \<Rightarrow> (string \<times> string) list option" where
  "get_vault_info e vault_resource_id =
     (case parse_vault_resource_id vault_resource_id of
        None \<Rightarrow> None
      | Some (subscription_id, resource_group, vault_name) \<Rightarrow>
          (case vault_tags e subscription_id resource_group vault_name of
             Inl ex \<Rightarrow> None
           | Inr tags \<Rightarrow> Some (case tags of None \<Rightarrow> [] | Some t \<Rightarrow> t)))"

text \<open>
  What the variable \<open>vault_info\<close> of the handler can hold: \<open>None\<close>, the dictionary
  (given by its tags), or a coroutine object, which is what calling an \<open>async def\<close>
  without \<open>await\<close> evaluates to. The coroutine carries what awaiting it would give;
  nothing in the handler reads that.
\<close>

datatype vault_info_object =
    NoneObject
  | DictObject "(string \<times> string) list"
  | CoroutineObject "(string \<times> string) list option"

text \<open>\<open>not vault_info\<close>: only \<open>None\<close> is falsy (the dictionary always has its six keys).\<close>

definition falsy :: "vault_info_object \<Rightarrow> bool" where
  "falsy vault_info = (case vault_info of NoneObject \<Rightarrow> True | _ \<Rightarrow> False)"

text \<open>\<open>vault_info.get('tags', {}) if isinstance(vault_info, dict) else {}\<close>\<close>

definition tags_of :: "vault_info_object \<Rightarrow> (string \<times> string) list" where
  "tags_of vault_info = (case vault_info of DictObject tags \<Rightarrow> tags | _ \<Rightarrow> [])"

datatype py_value = PyNone | PyStr string | PyBool bool

text \<open>\<open>creator_id and creator_id.lower() == user_id.lower()\<close>\<close>

definition is_creator_value :: "string option \<Rightarrow> string \<Rightarrow> py_value" where
  "is_creator_value creator_id user_id =
     (case creator_id of
        None \<Rightarrow> PyNone
      | Some c \<Rightarrow> if c = [] then PyStr c else PyBool (lower c = lower user_id))"

record role_response =
  success :: bool
  ownerRoleAssigned :: bool
  adminRoleAssigned :: bool
  resourceUri :: string
  userId :: string
  isCreator :: py_value
  discovered :: nat
  assignments :: "(string \<times> (string \<times> bool) list) list"
  storage_success :: bool

text \<open>The HTTP answers of the handler: an error with its status, the 403 of the
  creator check (with \<open>userId\<close> and \<open>creatorId\<close>), or the result body with status 200
  or 500.\<close>

datatype http_response =
    ErrorResponse nat string
  | Unauthorized string string
  | RoleResponse nat role_response

datatype log_record = Warning string | Error string

text \<open>
  The overall storage outcome: every recorded pair succeeded.
\<close>

definition all_succeeded :: "(string \<times> (string \<times> bool) list) list \<Rightarrow> bool" where
  "all_succeeded storage_results = list_all (\<lambda>(storage_name, roles). list_all snd roles) storage_results"

text \<open>
  The handler from the reconciliation of the two vault roles on (after the creator
  check): Owner, then Administrator whatever the Owner outcome was, discovery, the
  storage cascade, the response. An exception that leaves
  \<open>assign_storage_roles_to_user\<close> reaches the handler's last \<open>except\<close> clause.
\<close>

definition assign_all ::
  "env \<Rightarrow> store \<Rightarrow> string \<Rightarrow> string \<Rightarrow> string \<Rightarrow> string option
     \<Rightarrow> http_response \<times> store \<times> provider_call list" where
  "assign_all e st user_id resource_uri subscription_id creator_id =
     (let owner_role_definition_id = role_definition subscription_id owner_role_id;
          admin_role_definition_id = role_definition subscription_id admin_role_id
      in case assign_role_to_user e st resource_uri owner_role_definition_id user_id of
        (owner_success, st1, calls1) \<Rightarrow>
      (case assign_role_to_user e st1 resource_uri admin_role_definition_id user_id of
        (admin_success, st2, calls2) \<Rightarrow>
      (let storage_accounts = discover_associated_storage_accounts e resource_uri
       in case (if storage_accounts \<noteq> [] then
                  (if owner_success then
                     assign_storage_roles_to_user e st2 storage_accounts owner_role_definition_id user_id
                   else if admin_success then
                     assign_storage_roles_to_user e st2 storage_accounts admin_role_definition_id user_id
                   else (Inr [], st2, []))
                else (Inr [], st2, [])) of
            (Inl ex, st3, calls3) \<Rightarrow>
              (ErrorResponse 500 ''Internal server error'', st3, calls1 @ calls2 @ calls3)
          | (Inr storage_results, st3, calls3) \<Rightarrow>
              (let storage_ok = (if storage_accounts \<noteq> [] then all_succeeded storage_results else True);
                   ok = (owner_success \<and> admin_success \<and> storage_ok)
               in (RoleResponse (if ok then 200 else 500)
                     \<lparr>success = ok,
                      ownerRoleAssigned = owner_success,
                      adminRoleAssigned = admin_success,
                      resourceUri = resource_uri,
                      userId = user_id,
                      isCreator = is_creator_value creator_id user_id,
                      discovered = length storage_accounts,
                      assignments = storage_results,
                      storage_success = storage_ok\<rparr>,
                   st3, calls1 @ calls2 @ calls3)))))"

text \<open>
  The handler from the test \<open>if not vault_info\<close> on, for whatever \<open>vault_info\<close> holds:
  \<^verbatim>\<open>
    vault_tags = vault_info.get('tags', {}) if isinstance(vault_info, dict) else {}
    creator_id = vault_tags.get('CreatedByID')
    if not creator_id:
        logging.warning("Vault does not have CreatedByID tag, cannot verify creator")
    elif creator_id.lower() != user_id.lower():
        return func.HttpResponse(..., status_code=403, ...)
  \<close>
  The result is the response, the provider's state, the provider calls issued and the
  warnings and errors of the creator check.
\<close>

definition process_vault_info ::
  "env \<Rightarrow> store \<Rightarrow> string \<Rightarrow> string \<Rightarrow> string \<Rightarrow> vault_info_object
     \<Rightarrow> http_response \<times> store \<times> provider_call list \<times> log_record list" where
  "process_vault_info e st user_id resource_uri subscription_id vault_info =
     (if falsy vault_info then
        (ErrorResponse 404 ''Could not retrieve vault information'', st, [],
         [Error ''Could not retrieve vault information''])
      else
        (let vault_tags = tags_of vault_info;
             creator_id = map_of vault_tags ''CreatedByID''
         in case creator_id of
              None \<Rightarrow>
                (case assign_all e st user_id resource_uri subscription_id creator_id of
                   (response, st', calls) \<Rightarrow>
                     (response, st', calls,
                      [Warning ''Vault does not have CreatedByID tag, cannot verify creator'']))
            | Some c \<Rightarrow>
                if c = [] then
                  (case assign_all e st user_id resource_uri subscription_id creator_id of
                     (response, st', calls) \<Rightarrow>
                       (response, st', calls,
                        [Warning ''Vault does not have CreatedByID tag, cannot verify creator'']))
                else if lower c \<noteq> lower user_id then
                  (Unauthorized user_id c, st, [],
                   [Error ''User is not the creator of the vault''])
                else
                  (case assign_all e st user_id resource_uri subscription_id creator_id of
                     (response, st', calls) \<Rightarrow> (response, st', calls, []))))"

text \<open>
  \<open>direct_vault_rbac_processor\<close>, from the validated token on: \<open>user_id\<close> is the caller's
  id from the token. Line 121 is
  \<^verbatim>\<open>vault_info = vault_manager.get_vault_info(resource_uri)\<close>
  without \<open>await\<close>, on a method declared \<open>async def\<close>: \<open>vault_info\<close> is the coroutine
  object.
\<close>

definition direct_vault_rbac_processor ::
  "env \<Rightarrow> store \<Rightarrow> string \<Rightarrow> string \<Rightarrow> string
     \<Rightarrow> http_response \<times> store \<times> provider_call list \<times> log_record list" where
  "direct_vault_rbac_processor e st user_id resource_uri subscription_id =
     (if resource_uri = [] \<or> subscription_id = [] then
        (ErrorResponse 400 ''Missing required parameters: resourceUri and subscriptionId are required'',
         st, [], [Error ''Missing required parameters''])
      else
        (let vault_info = CoroutineObject (get_vault_info e resource_uri)
         in process_vault_info e st user_id resource_uri subscription_id vault_info))"

text \<open>The handler as its tests and its docstring take it to be, with the call of
  \<open>get_vault_info\<close> awaited. It is here for comparison only.\<close>

definition awaited :: "(string \<times> string) list option \<Rightarrow> vault_info_object" where
  "awaited r = (case r of None \<Rightarrow> NoneObject | Some tags \<Rightarrow> DictObject tags)"

section \<open>Notions for stating the reconciler's properties\<close>

text \<open>
  The principal \<open>pid\<close> has an assignment of exactly the role definition \<open>role\<close>
  (\<open>exact_in\<close>), has an assignment whose role definition names the Owner role
  (\<open>owner_in\<close>), and its assignments of any other role definition (\<open>others_in\<close>), among
  the assignments \<open>xs\<close> listed at a scope (\<open>at_scope\<close>). \<open>without\<close> is the provider's
  state once the delete calls for \<open>rs\<close> that do not raise have been carried out.
\<close>

definition exact_in :: "string \<Rightarrow> string \<Rightarrow> role_assignment list \<Rightarrow> bool" where
  "exact_in pid role xs = list_ex (\<lambda>x. ra_principal_id x = pid \<and> ra_role_definition_id x = role) xs"

definition owner_in :: "string \<Rightarrow> role_assignment list \<Rightarrow> bool" where
  "owner_in pid xs =
     list_ex (\<lambda>x. ra_principal_id x = pid \<and> str_in owner_role_id (ra_role_definition_id x)) xs"

definition others_in :: "string \<Rightarrow> string \<Rightarrow> role_assignment list \<Rightarrow> role_assignment list" where
  "others_in pid role xs =
     filter (\<lambda>x. ra_principal_id x = pid \<and> ra_role_definition_id x \<noteq> role) xs"

definition at_scope :: "string \<Rightarrow> store \<Rightarrow> role_assignment list" where
  "at_scope scope st = filter (\<lambda>a. ra_scope a = scope) st"

definition without :: "env \<Rightarrow> string \<Rightarrow> role_assignment list \<Rightarrow> store \<Rightarrow> store" where
  "without e scope rs st =
     filter (\<lambda>x. \<not> (ra_scope x = scope \<and>
                     (\<exists>r\<in>set rs. ra_name r = ra_name x \<and> \<not> delete_fault e scope (ra_name r)))) st"

definition delete_calls :: "string \<Rightarrow> role_assignment list \<Rightarrow> provider_call list" where
  "delete_calls scope rs = map (\<lambda>r. DeleteCall scope (ra_name r)) rs"

definition new_assignment :: "env \<Rightarrow> string \<Rightarrow> string \<Rightarrow> string \<Rightarrow> role_assignment" where
  "new_assignment e scope role pid =
     \<lparr>ra_name = uuid4 e scope role, ra_scope = scope, ra_role_definition_id = role,
      ra_principal_id = pid, ra_principal_type = detect_principal_type e pid\<rparr>"

definition create_call :: "env \<Rightarrow> string \<Rightarrow> string \<Rightarrow> string \<Rightarrow> provider_call" where
  "create_call e scope role pid =
     CreateCall scope (uuid4 e scope role) role pid (detect_principal_type e pid)"

text \<open>The outcome recorded in \<open>results\<close> for a (storage name, role id) pair.\<close>

definition reported :: "(string \<times> (string \<times> bool) list) list \<Rightarrow> string \<Rightarrow> string \<Rightarrow> bool option" where
  "reported results storage_name role_id =
     (case map_of results storage_name of
        None \<Rightarrow> None
      | Some roles \<Rightarrow> map_of roles role_id)"

text \<open>
  The specification's wording of the storage cascade, for comparison: every (storage
  resource, role) pair is attempted, in order, each on the state the pair before it
  left, and the outcome of each is recorded under the storage name and the role id.
\<close>

fun attempt_roles ::
  "env \<Rightarrow> string \<Rightarrow> string \<Rightarrow> string list \<Rightarrow> store
     \<Rightarrow> (string \<times> bool) list \<times> store \<times> provider_call list" where
  "attempt_roles e storage_resource_id principal_id [] st = ([], st, [])"
| "attempt_roles e storage_resource_id principal_id (role_id # rest) st =
     (case assign_role_to_storage_account e st storage_resource_id
             (role_definition (split_on CHR ''/'' storage_resource_id ! 2) role_id) principal_id of
        (ok, st1, calls1) \<Rightarrow>
          (case attempt_roles e storage_resource_id principal_id rest st1 of
             (oks, st2, calls2) \<Rightarrow> ((role_id, ok) # oks, st2, calls1 @ calls2)))"

fun attempt_accounts ::
  "env \<Rightarrow> string \<Rightarrow> string list \<Rightarrow> string list \<Rightarrow> store
     \<Rightarrow> (string \<times> (string \<times> bool) list) list \<times> store \<times> provider_call list" where
  "attempt_accounts e principal_id role_ids [] st = ([], st, [])"
| "attempt_accounts e principal_id role_ids (storage_resource_id # rest) st =
     (case attempt_roles e storage_resource_id principal_id role_ids st of
        (oks, st1, calls1) \<Rightarrow>
          (case attempt_accounts e principal_id role_ids rest st1 of
             (outs, st2, calls2) \<Rightarrow>
               ((last (split_on CHR ''/'' storage_resource_id), oks) # outs, st2, calls1 @ calls2)))"

section \<open>Example data\<close>

text \<open>
  A world in which nothing raises, the directory knows nobody and the inventory is
  empty; the examples below change single fields of it. The vault and its resource
  group are those of the repository's tests.
\<close>

definition quiet_env :: env where
  "quiet_env =
     \<lparr>is_guid = (\<lambda>s. length (remove_char CHR ''-'' s) = 32),
      uuid4 = (\<lambda>scope role_definition_id. ''new:'' @ role_definition_id),
      graph_get = (\<lambda>url. None),
      list_by_resource_group = (\<lambda>subscription_id resource_group. Inr []),
      vault_tags = (\<lambda>subscription_id resource_group vault_name. Inr None),
      list_fault = (\<lambda>scope. None),
      create_fault = (\<lambda>scope role_definition_id. None),
      delete_fault = (\<lambda>scope name. False)\<rparr>"

definition test_vault :: string where
  "test_vault =
     ''/subscriptions/test-sub/resourceGroups/test-rg/providers/Microsoft.KeyVault/vaults/testvault''"

definition test_principal :: string where
  "test_principal = ''12345678-1234-1234-1234-123456789abc''"

definition storage_id :: "string \<Rightarrow> string" where
  "storage_id name =
     ''/subscriptions/test-sub/resourceGroups/test-rg/providers/Microsoft.Storage/storageAccounts/'' @ name"

definition untagged :: "string \<Rightarrow> storage_account" where
  "untagged name = \<lparr>sa_id = storage_id name, sa_name = name, sa_tags = None\<rparr>"

definition tagged :: "string \<Rightarrow> string \<Rightarrow> storage_account" where
  "tagged name vault_name =
     \<lparr>sa_id = storage_id name, sa_name = name, sa_tags = Some [(''AssociatedVault'', vault_name)]\<rparr>"

definition holds :: "string \<Rightarrow> string \<Rightarrow> string \<Rightarrow> string \<Rightarrow> role_assignment" where
  "holds name scope role_definition_id principal_id =
     \<lparr>ra_name = name, ra_scope = scope, ra_role_definition_id = role_definition_id,
      ra_principal_id = principal_id, ra_principal_type = ''User''\<rparr>"

definition owner_definition :: string where
  "owner_definition = role_definition ''test-sub'' owner_role_id"

definition admin_definition :: string where
  "admin_definition = role_definition ''test-sub'' admin_role_id"

definition other_principal :: string where
  "other_principal = ''87654321-4321-4321-4321-cba987654321''"

text \<open>The quiet world in which every create call raises an \<open>HttpResponseError\<close> with
  the given text, in which the vault carries a \<open>CreatedByID\<close> tag, and in which the
  resource group holds the given storage accounts.\<close>

definition create_raises :: "string \<Rightarrow> env" where
  "create_raises msg = quiet_env\<lparr>create_fault := (\<lambda>scope role_definition_id. Some (HttpResponseError msg))\<rparr>"

definition vault_created_by :: "string \<Rightarrow> env" where
  "vault_created_by creator =
     quiet_env\<lparr>vault_tags := (\<lambda>subscription_id resource_group vault_name.
                                 Inr (Some [(''CreatedByID'', creator)]))\<rparr>"

definition inventory :: "storage_account list \<Rightarrow> env" where
  "inventory accounts =
     quiet_env\<lparr>list_by_resource_group := (\<lambda>subscription_id resource_group. Inr accounts)\<rparr>"

definition delete_raises :: env where
  "delete_raises = quiet_env\<lparr>delete_fault := (\<lambda>scope name. True)\<rparr>"

text \<open>A world with one storage account in which the provider refuses every create call.\<close>

definition refusing_env :: env where
  "refusing_env =
     quiet_env\<lparr>create_fault := (\<lambda>scope role_definition_id. Some (HttpResponseError ''AuthorizationFailed'')),
               list_by_resource_group := (\<lambda>subscription_id resource_group. Inr [untagged ''vstorage''])\<rparr>"


text \<open>Worlds with one storage account in which the provider refuses the create calls
  at the vault only, and for the Owner role only; and a world in which it refuses the
  create calls for Storage Account Contributor only.\<close>

definition vault_refusing_env :: env where
  "vault_refusing_env =
     quiet_env\<lparr>create_fault := (\<lambda>scope role_definition_id.
                    if scope = test_vault then Some (HttpResponseError ''AuthorizationFailed'')
                    else None),
               list_by_resource_group := (\<lambda>subscription_id resource_group. Inr [untagged ''vstorage''])\<rparr>"

definition owner_refusing_env :: env where
  "owner_refusing_env =
     quiet_env\<lparr>create_fault := (\<lambda>scope role_definition_id.
                    if role_definition_id = owner_definition
                    then Some (HttpResponseError ''AuthorizationFailed'') else None),
               list_by_resource_group := (\<lambda>subscription_id resource_group. Inr [untagged ''vstorage''])\<rparr>"

definition contributor_refusing_env :: env where
  "contributor_refusing_env =
     quiet_env\<lparr>create_fault := (\<lambda>scope role_definition_id.
                    if role_definition_id = role_definition ''test-sub'' STORAGE_ACCOUNT_CONTRIBUTOR_ROLE_ID
                    then Some (HttpResponseError ''AuthorizationFailed'') else None)\<rparr>"

section \<open>Properties of GUID normalization\<close>

lemma remove_char_idem: "remove_char c (remove_char c s) = remove_char c s"
  by (simp add: remove_char_def)

lemma remove_char_append: "remove_char c (xs @ ys) = remove_char c xs @ remove_char c ys"
  by (simp add: remove_char_def)

lemma remove_char_free: "c \<notin> set s \<Longrightarrow> remove_char c s = s"
  unfolding remove_char_def by (induction s) auto

lemma remove_char_not_mem: "c \<notin> set (remove_char c s)"
  by (simp add: remove_char_def)

lemma remove_char_slice:
  "c \<notin> set s \<Longrightarrow> remove_char c (slice i j s) = slice i j s"
proof -
  assume "c \<notin> set s"
  moreover have "set (slice i j s) \<subseteq> set s"
    unfolding slice_def by (meson dual_order.trans set_drop_subset set_take_subset)
  ultimately show ?thesis by (intro remove_char_free) auto
qed

lemma slice_join:
  "i \<le> j \<Longrightarrow> j \<le> k \<Longrightarrow> slice i j g @ slice j k g = slice i k g"
proof -
  assume ij: "i \<le> j" and jk: "j \<le> k"
  have "slice i k g = take (k - i) (drop i g)"
    by (simp add: slice_def drop_take)
  also have "k - i = (j - i) + (k - j)" using ij jk by simp
  also have "take ((j - i) + (k - j)) (drop i g)
      = take (j - i) (drop i g) @ take (k - j) (drop (j - i) (drop i g))"
    by (rule take_add)
  also have "drop (j - i) (drop i g) = drop j g" using ij by simp
  finally show ?thesis by (simp add: slice_def drop_take)
qed

lemma slices_rejoin:
  assumes "length g = 32"
  shows "slice 0 8 g @ slice 8 12 g @ slice 12 16 g @ slice 16 20 g @ slice 20 32 g = g"
proof -
  have "slice 16 20 g @ slice 20 32 g = slice 16 32 g" by (rule slice_join) simp_all
  moreover have "slice 12 16 g @ slice 16 32 g = slice 12 32 g" by (rule slice_join) simp_all
  moreover have "slice 8 12 g @ slice 12 32 g = slice 8 32 g" by (rule slice_join) simp_all
  moreover have "slice 0 8 g @ slice 8 32 g = slice 0 32 g" by (rule slice_join) simp_all
  moreover have "slice 0 32 g = g" using assms by (simp add: slice_def)
  ultimately show ?thesis by simp
qed

lemma normalize_guid_strip:
  "remove_char CHR ''-'' (normalize_guid s) = remove_char CHR ''-'' s"
proof (cases "s = [] \<or> length (remove_char CHR ''-'' s) \<noteq> 32")
  case True
  then show ?thesis by (auto simp: normalize_guid_def Let_def remove_char_idem)
next
  case False
  define g where "g = remove_char CHR ''-'' s"
  have len: "length g = 32" and free: "CHR ''-'' \<notin> set g"
    using False by (simp_all add: g_def remove_char_not_mem)
  have "normalize_guid s = slice 0 8 g @ ''-'' @ slice 8 12 g @ ''-'' @ slice 12 16 g @ ''-''
               @ slice 16 20 g @ ''-'' @ slice 20 32 g"
    using False by (simp add: normalize_guid_def guid_format_def Let_def g_def)
  then have "remove_char CHR ''-'' (normalize_guid s)
      = slice 0 8 g @ slice 8 12 g @ slice 12 16 g @ slice 16 20 g @ slice 20 32 g"
    using remove_char_slice [OF free] by (simp add: remove_char_def)
  then show ?thesis using slices_rejoin [OF len] by (simp add: g_def)
qed

lemma normalize_guid_alt:
  "normalize_guid s =
     (if length (remove_char CHR ''-'' s) = 32 then guid_format (remove_char CHR ''-'' s)
      else remove_char CHR ''-'' s)"
  by (simp add: normalize_guid_def Let_def remove_char_def)

lemma split_on_free: "d \<notin> set a \<Longrightarrow> split_on d a = [a]"
  by (induction a) auto

lemma split_on_sep: "d \<notin> set a \<Longrightarrow> split_on d (a @ d # r) = a # split_on d r"
  by (induction a) auto

lemma slice_set: "set (slice i j g) \<subseteq> set g"
  unfolding slice_def by (meson dual_order.trans set_drop_subset set_take_subset)

lemma guid_format_shape:
  assumes len: "length g = 32" and free: "CHR ''-'' \<notin> set g"
  shows "canonical_shape (guid_format g)"
proof -
  have fr: "CHR ''-'' \<notin> set (slice i j g)" for i j
    using free slice_set [of i j g] by blast
  have "split_on CHR ''-'' (guid_format g)
      = [slice 0 8 g, slice 8 12 g, slice 12 16 g, slice 16 20 g, slice 20 32 g]"
    by (simp add: guid_format_def split_on_sep [OF fr] split_on_free [OF fr])
  then show ?thesis using len by (simp add: canonical_shape_def slice_def)
qed

text \<open>
  C3, as the code has it. When the input has 32 characters once its hyphens are
  removed (a GUID of 32 hexadecimal digits in particular, with or without hyphens),
  the result is those characters in the canonical 8-4-4-4-12 form. Every other input
  is returned with its hyphens removed: it comes back unchanged exactly when it
  contained no hyphen.
\<close>

theorem normalize_guid_spec:
  "(length (remove_char CHR ''-'' s) = 32 \<longrightarrow>
      normalize_guid s = guid_format (remove_char CHR ''-'' s) \<and>
      canonical_shape (normalize_guid s) \<and>
      remove_char CHR ''-'' (normalize_guid s) = remove_char CHR ''-'' s) \<and>
   (length (remove_char CHR ''-'' s) \<noteq> 32 \<longrightarrow>
      normalize_guid s = remove_char CHR ''-'' s \<and>
      (normalize_guid s = s \<longleftrightarrow> CHR ''-'' \<notin> set s))"
proof (intro conjI impI)
  assume len: "length (remove_char CHR ''-'' s) = 32"
  then show fmt: "normalize_guid s = guid_format (remove_char CHR ''-'' s)"
    by (simp add: normalize_guid_alt)
  show "canonical_shape (normalize_guid s)"
    unfolding fmt by (rule guid_format_shape [OF len remove_char_not_mem])
  show "remove_char CHR ''-'' (normalize_guid s) = remove_char CHR ''-'' s"
    by (rule normalize_guid_strip)
next
  assume len: "length (remove_char CHR ''-'' s) \<noteq> 32"
  then show eq: "normalize_guid s = remove_char CHR ''-'' s"
    by (simp add: normalize_guid_alt)
  show "(normalize_guid s = s) = (CHR ''-'' \<notin> set s)"
    unfolding eq
    using remove_char_free [of "CHR ''-''" s] remove_char_not_mem [of "CHR ''-''" s]
    by auto
qed

theorem normalize_guid_spec_witness:
  "normalize_guid ''12345678123412341234123456789abc'' = ''12345678-1234-1234-1234-123456789abc''
   \<and> canonical_shape (normalize_guid ''1234-5678-1234-1234-1234-1234-5678-9abc'')
   \<and> normalize_guid ''user@example.com'' = ''user@example.com''
   \<and> normalize_guid ''abc-def'' = ''abcdef''"
proof -
  have l1: "length (remove_char CHR ''-'' ''12345678123412341234123456789abc'') = 32"
    and l2: "length (remove_char CHR ''-'' ''1234-5678-1234-1234-1234-1234-5678-9abc'') = 32"
    and l3: "length (remove_char CHR ''-'' ''user@example.com'') \<noteq> 32"
    and l4: "length (remove_char CHR ''-'' ''abc-def'') \<noteq> 32"
    by (simp_all add: remove_char_def)
  have "normalize_guid ''12345678123412341234123456789abc''
          = guid_format (remove_char CHR ''-'' ''12345678123412341234123456789abc'')"
    using normalize_guid_spec [of "''12345678123412341234123456789abc''"] l1 by blast
  then have a: "normalize_guid ''12345678123412341234123456789abc''
          = ''12345678-1234-1234-1234-123456789abc''"
    by (simp add: remove_char_def guid_format_def slice_def)
  have b: "canonical_shape (normalize_guid ''1234-5678-1234-1234-1234-1234-5678-9abc'')"
    using normalize_guid_spec [of "''1234-5678-1234-1234-1234-1234-5678-9abc''"] l2 by blast
  have "normalize_guid ''user@example.com'' = remove_char CHR ''-'' ''user@example.com''"
    using normalize_guid_spec [of "''user@example.com''"] l3 by blast
  then have c: "normalize_guid ''user@example.com'' = ''user@example.com''"
    by (simp add: remove_char_def)
  have "normalize_guid ''abc-def'' = remove_char CHR ''-'' ''abc-def''"
    using normalize_guid_spec [of "''abc-def''"] l4 by blast
  then have d: "normalize_guid ''abc-def'' = ''abcdef''"
    by (simp add: remove_char_def)
  from a b c d show ?thesis by blast
qed

text \<open>
  C3 as the specification states it fails: \<open>abc-def\<close> has six hexadecimal digits, not
  32, and is not returned unchanged.
\<close>

theorem normalize_guid_not_unchanged:
  "hex_digit_length ''abc-def'' \<noteq> 32 \<and> normalize_guid ''abc-def'' \<noteq> ''abc-def''"
  by (simp add: hex_digit_length_def is_hex_digit_def normalize_guid_def remove_char_def)

text \<open>
  C10: GUID normalization is idempotent. A normalized principal id is a fixed point
  of every later normalization.
\<close>

theorem normalize_guid_idempotent: "normalize_guid (normalize_guid s) = normalize_guid s"
proof -
  have "normalize_guid (normalize_guid s) =
     (if length (remove_char CHR ''-'' (normalize_guid s)) = 32
      then guid_format (remove_char CHR ''-'' (normalize_guid s))
      else remove_char CHR ''-'' (normalize_guid s))"
    by (rule normalize_guid_alt)
  also have "\<dots> = normalize_guid s"
    by (simp only: normalize_guid_strip normalize_guid_alt [symmetric])
  finally show ?thesis .
qed

section \<open>Properties of the naming convention and the role mapping\<close>

lemma lower_append: "lower (a @ b) = lower a @ lower b"
  by (simp add: lower_def)

lemma lower_suffixes:
  "lower ''storage'' = ''storage''" "lower ''stor'' = ''stor''" "lower ''st'' = ''st''"
  by (simp_all add: lower_def lower_char_def)

text \<open>\<open>ci_contains\<close> says what the wording says: some contiguous part of the name
  equals the pattern up to case.\<close>

lemma ci_contains_iff:
  "ci_contains s p \<longleftrightarrow> (\<exists>u v w. s = u @ v @ w \<and> lower v = lower p)"
proof
  assume "ci_contains s p"
  then obtain ps ss where "map lower_char s = ps @ (map lower_char p @ ss)"
    by (auto simp: ci_contains_def sublist_def lower_def)
  then have "\<exists>us vs. s = us @ vs \<and> ps = map lower_char us
               \<and> map lower_char p @ ss = map lower_char vs"
    by (simp add: map_eq_append_conv)
  then obtain u r where s: "s = u @ r" and r: "map lower_char r = map lower_char p @ ss"
    by auto
  from r have "\<exists>us vs. r = us @ vs \<and> map lower_char p = map lower_char us
               \<and> ss = map lower_char vs"
    by (simp add: map_eq_append_conv)
  then obtain v w where "r = v @ w" "map lower_char v = map lower_char p"
    by auto
  with s show "\<exists>u v w. s = u @ v @ w \<and> lower v = lower p"
    by (auto simp: lower_def)
next
  assume "\<exists>u v w. s = u @ v @ w \<and> lower v = lower p"
  then obtain u v w where "s = u @ v @ w" "lower v = lower p" by blast
  then have "lower s = lower u @ lower p @ lower w" by (simp add: lower_append)
  then show "ci_contains s p" by (auto simp: ci_contains_def sublist_def)
qed

text \<open>
  C8: the name-match predicate holds exactly when the storage name contains,
  case-insensitively, one of the four patterns \<open>{vault}storage\<close>, \<open>{vault}stor\<close>,
  \<open>stor{vault}\<close>, \<open>{vault}st\<close>; for the vault \<open>finance\<close> the four names of the
  specification match and \<open>financeappstorage\<close> and \<open>storage\<close> do not.
\<close>

theorem matches_naming_convention_spec:
  "matches_naming_convention storage_name vault_name =
     (ci_contains storage_name (vault_name @ ''storage'') \<or>
      ci_contains storage_name (vault_name @ ''stor'') \<or>
      ci_contains storage_name (''stor'' @ vault_name) \<or>
      ci_contains storage_name (vault_name @ ''st''))
   \<and> matches_naming_convention ''financestorage'' ''finance''
   \<and> matches_naming_convention ''financestor'' ''finance''
   \<and> matches_naming_convention ''storfinance'' ''finance''
   \<and> matches_naming_convention ''financest'' ''finance''
   \<and> \<not> matches_naming_convention ''financeappstorage'' ''finance''
   \<and> \<not> matches_naming_convention ''storage'' ''finance''"
proof (intro conjI)
  show "matches_naming_convention storage_name vault_name =
     (ci_contains storage_name (vault_name @ ''storage'') \<or>
      ci_contains storage_name (vault_name @ ''stor'') \<or>
      ci_contains storage_name (''stor'' @ vault_name) \<or>
      ci_contains storage_name (vault_name @ ''st''))"
    by (simp add: matches_naming_convention_def ci_contains_def str_in_def lower_append
        lower_suffixes Let_def del: append.simps)
  show "matches_naming_convention ''financestorage'' ''finance''" by code_simp
  show "matches_naming_convention ''financestor'' ''finance''" by code_simp
  show "matches_naming_convention ''storfinance'' ''finance''" by code_simp
  show "matches_naming_convention ''financest'' ''finance''" by code_simp
  show "\<not> matches_naming_convention ''financeappstorage'' ''finance''" by code_simp
  show "\<not> matches_naming_convention ''storage'' ''finance''" by code_simp
qed

text \<open>
  C9: a role id that names the Owner role maps to exactly the two roles Storage
  Account Contributor and Storage Blob Data Owner; one that names the Administrator
  role (and not Owner) maps to exactly Storage Blob Data Contributor; every other role
  id maps to the empty list, an ordinary result. The function has no failing branch.
\<close>

theorem role_mapping_spec:
  "(str_in owner_role_id vault_role_id \<longrightarrow>
      get_storage_role_assignments_for_vault_role vault_role_id =
        [STORAGE_ACCOUNT_CONTRIBUTOR_ROLE_ID, STORAGE_BLOB_DATA_OWNER_ROLE_ID]) \<and>
   (\<not> str_in owner_role_id vault_role_id \<and> str_in admin_role_id vault_role_id \<longrightarrow>
      get_storage_role_assignments_for_vault_role vault_role_id =
        [STORAGE_BLOB_DATA_CONTRIBUTOR_ROLE_ID]) \<and>
   (\<not> str_in owner_role_id vault_role_id \<and> \<not> str_in admin_role_id vault_role_id \<longrightarrow>
      get_storage_role_assignments_for_vault_role vault_role_id = [])"
  by (simp add: get_storage_role_assignments_for_vault_role_def)

theorem role_mapping_spec_witness:
  "get_storage_role_assignments_for_vault_role owner_role_id =
     [STORAGE_ACCOUNT_CONTRIBUTOR_ROLE_ID, STORAGE_BLOB_DATA_OWNER_ROLE_ID]
   \<and> get_storage_role_assignments_for_vault_role
       (''/subscriptions/test/providers/Microsoft.Authorization/roleDefinitions/'' @ admin_role_id) =
     [STORAGE_BLOB_DATA_CONTRIBUTOR_ROLE_ID]
   \<and> get_storage_role_assignments_for_vault_role
       ''/subscriptions/test/providers/Microsoft.Authorization/roleDefinitions/unknown-role'' = []"
proof -
  have o: "str_in owner_role_id owner_role_id" by code_simp
  have a: "\<not> str_in owner_role_id
              (''/subscriptions/test/providers/Microsoft.Authorization/roleDefinitions/'' @ admin_role_id)
           \<and> str_in admin_role_id
              (''/subscriptions/test/providers/Microsoft.Authorization/roleDefinitions/'' @ admin_role_id)"
    by code_simp
  have u: "\<not> str_in owner_role_id
              ''/subscriptions/test/providers/Microsoft.Authorization/roleDefinitions/unknown-role''
           \<and> \<not> str_in admin_role_id
              ''/subscriptions/test/providers/Microsoft.Authorization/roleDefinitions/unknown-role''"
    by code_simp
  show ?thesis
    using o a u
      role_mapping_spec [of owner_role_id]
      role_mapping_spec [of "''/subscriptions/test/providers/Microsoft.Authorization/roleDefinitions/'' @ admin_role_id"]
      role_mapping_spec [of "''/subscriptions/test/providers/Microsoft.Authorization/roleDefinitions/unknown-role''"]
    by blast
qed

section \<open>Properties of storage discovery\<close>

lemma collect_associated_filter:
  "collect_associated vault_name accounts = map sa_id (filter (matched vault_name) accounts)"
  by (induction accounts) (auto simp: matched_def)

text \<open>
  C7: when the enumeration of the vault's resource group succeeds, has at least one
  storage resource and none of them is matched to the vault by tag or by name,
  discovery returns all of them; when at least one is matched, it returns exactly the
  matched ones.
\<close>

theorem discover_fallback_all:
  assumes "parse_vault_resource_id vault_resource_id = Some (subscription_id, resource_group, vault_name)"
    and "list_by_resource_group e subscription_id resource_group = Inr accounts_in_rg"
  shows "(accounts_in_rg \<noteq> [] \<and> filter (matched vault_name) accounts_in_rg = [] \<longrightarrow>
            discover_associated_storage_accounts e vault_resource_id = map sa_id accounts_in_rg)
       \<and> (filter (matched vault_name) accounts_in_rg \<noteq> [] \<longrightarrow>
            discover_associated_storage_accounts e vault_resource_id
              = map sa_id (filter (matched vault_name) accounts_in_rg))"
  using assms
  by (simp add: discover_associated_storage_accounts_def collect_associated_filter Let_def)

theorem discover_fallback_all_witness:
  "discover_associated_storage_accounts
       (inventory [untagged ''alpha'', untagged ''beta'', tagged ''gamma'' ''othervault'']) test_vault
     = [storage_id ''alpha'', storage_id ''beta'', storage_id ''gamma'']
   \<and> discover_associated_storage_accounts
       (inventory [tagged ''account1'' ''testvault'', untagged ''testvaultstorage'', untagged ''alpha'']) test_vault
     = [storage_id ''account1'', storage_id ''testvaultstorage'']"
proof -
  let ?none = "[untagged ''alpha'', untagged ''beta'', tagged ''gamma'' ''othervault'']"
  let ?some = "[tagged ''account1'' ''testvault'', untagged ''testvaultstorage'', untagged ''alpha'']"
  have parse: "parse_vault_resource_id test_vault = Some (''test-sub'', ''test-rg'', ''testvault'')"
    by code_simp
  have l1: "list_by_resource_group (inventory ?none) ''test-sub'' ''test-rg'' = Inr ?none"
    and l2: "list_by_resource_group (inventory ?some) ''test-sub'' ''test-rg'' = Inr ?some"
    by (simp_all add: inventory_def quiet_env_def)
  have m1: "filter (matched ''testvault'') ?none = []"
    and m2: "filter (matched ''testvault'') ?some
               = [tagged ''account1'' ''testvault'', untagged ''testvaultstorage'']"
    by code_simp+
  have r1: "discover_associated_storage_accounts (inventory ?none) test_vault = map sa_id ?none"
    using discover_fallback_all [OF parse l1] m1 by simp
  have r2: "discover_associated_storage_accounts (inventory ?some) test_vault
      = map sa_id (filter (matched ''testvault'') ?some)"
    using discover_fallback_all [OF parse l2] m2 by simp
  have e1: "map sa_id ?none = [storage_id ''alpha'', storage_id ''beta'', storage_id ''gamma'']"
    and e2: "map sa_id [tagged ''account1'' ''testvault'', untagged ''testvaultstorage'']
               = [storage_id ''account1'', storage_id ''testvaultstorage'']"
    by (simp_all add: untagged_def tagged_def)
  show ?thesis by (simp only: r1 r2 m2 e1 e2)
qed

section \<open>The reconcilers in closed form\<close>

lemma scan_assignments_general:
  "scan_assignments pid role io xs (a, h, r) =
     (a \<or> (\<exists>x\<in>set xs. ra_principal_id x = pid \<and> ra_role_definition_id x = role),
      h \<or> (\<exists>x\<in>set xs. ra_principal_id x = pid \<and> str_in owner_role_id (ra_role_definition_id x)),
      r @ (if io then filter (\<lambda>x. ra_principal_id x = pid \<and> ra_role_definition_id x \<noteq> role) xs else []))"
  by (induction xs arbitrary: a h r) (auto simp: Let_def)

lemma scan_assignments_closed:
  "scan_assignments pid role io xs (False, False, []) =
     (exact_in pid role xs, owner_in pid xs, if io then others_in pid role xs else [])"
  by (simp add: scan_assignments_general exact_in_def owner_in_def others_in_def list_ex_iff)

lemma remove_redundant_closed:
  "remove_redundant e scope rs st = (without e scope rs st, delete_calls scope rs)"
proof (induction rs arbitrary: st)
  case Nil
  then show ?case by (simp add: without_def delete_calls_def)
next
  case (Cons r rs)
  define st' where "st' = (case delete_assignment e st scope (ra_name r) of None \<Rightarrow> st | Some st1 \<Rightarrow> st1)"
  have step: "remove_redundant e scope (r # rs) st =
      (fst (remove_redundant e scope rs st'),
       DeleteCall scope (ra_name r) # snd (remove_redundant e scope rs st'))"
    by (simp add: st'_def Let_def split: prod.splits)
  have st': "st' = filter (\<lambda>x. \<not> (ra_scope x = scope \<and> ra_name r = ra_name x
                                  \<and> \<not> delete_fault e scope (ra_name r))) st"
    by (cases "delete_fault e scope (ra_name r)")
       (auto simp: st'_def delete_assignment_def intro!: filter_cong)
  show ?case
    unfolding step Cons.IH [of st']
    by (auto simp: st' without_def delete_calls_def intro!: filter_cong)
qed

lemma without_Nil: "without e scope [] st = st"
  by (simp add: without_def)

lemma delete_calls_Nil: "delete_calls scope [] = []"
  by (simp add: delete_calls_def)

lemma assign_role_to_user_closed:
  assumes parts: "3 \<le> length (split_on CHR ''/'' scope)"
    and pid: "resolve_principal e p = Some pid"
    and lst: "list_fault e scope = None"
  shows "assign_role_to_user e st scope role p =
    (let xs = at_scope scope st;
         io = str_in owner_role_id role;
         red = (if io then others_in pid role xs else [])
     in if \<not> io \<and> owner_in pid xs \<and> \<not> str_in admin_role_id role then (True, st, [])
        else if exact_in pid role xs then (True, without e scope red st, delete_calls scope red)
        else (case create_fault e scope role of
                Some ex \<Rightarrow> (handle_exception ex, st, [create_call e scope role pid])
              | None \<Rightarrow> (True, without e scope red (st @ [new_assignment e scope role pid]),
                          create_call e scope role pid # delete_calls scope red)))"
proof -
  have len: "\<not> length (split_on CHR ''/'' scope) < 3" using parts by simp
  show ?thesis
    unfolding assign_role_to_user_def Let_def
    by (simp only: len if_False pid option.case lst list_for_scope_def sum.case
          at_scope_def [symmetric] scan_assignments_closed prod.case remove_redundant_closed
          create_assignment_def new_assignment_def [symmetric] create_call_def [symmetric])
       (auto simp: without_Nil delete_calls_Nil split: option.splits)
qed

lemma handle_exception_cases:
  "handle_exception (HttpResponseError msg) =
     (str_in ''already exists'' msg \<or> str_in ''PrincipalNotFound'' msg)"
  "handle_exception (OtherException msg) = False"
  by (simp_all add: handle_exception_def)

lemma assign_role_to_storage_account_closed:
  assumes parts: "3 \<le> length (split_on CHR ''/'' scope)"
    and pid: "resolve_principal e p = Some pid"
    and lst: "list_fault e scope = None"
  shows "assign_role_to_storage_account e st scope role p =
    (if exact_in pid role (at_scope scope st) then (True, st, [])
     else (case create_fault e scope role of
             Some ex \<Rightarrow> (handle_exception ex, st, [create_call e scope role pid])
           | None \<Rightarrow> (True, st @ [new_assignment e scope role pid], [create_call e scope role pid])))"
proof -
  have len: "\<not> length (split_on CHR ''/'' scope) < 3" using parts by simp
  show ?thesis
    unfolding assign_role_to_storage_account_def Let_def
    by (simp only: len if_False pid option.case lst list_for_scope_def sum.case
          at_scope_def [symmetric] exact_in_def [symmetric]
          create_assignment_def new_assignment_def [symmetric] create_call_def [symmetric])
       (auto split: option.splits)
qed

lemma count_delete_calls:
  "count_list (delete_calls scope rs) (DeleteCall scope n) = count_list (map ra_name rs) n"
  by (induction rs) (auto simp: delete_calls_def)

lemma distinct_count_one: "distinct xs \<Longrightarrow> x \<in> set xs \<Longrightarrow> count_list xs x = 1"
  by (induction xs) auto

lemma others_in_names:
  assumes "distinct (map ra_name xs)" "a \<in> set xs" "ra_principal_id a = pid"
    "ra_role_definition_id a \<noteq> role"
  shows "count_list (map ra_name (others_in pid role xs)) (ra_name a) = 1"
proof -
  have "distinct (map ra_name (others_in pid role xs))"
    unfolding others_in_def using assms(1) by (rule distinct_map_filter)
  moreover have "ra_name a \<in> set (map ra_name (others_in pid role xs))"
    using assms by (auto simp: others_in_def)
  ultimately show ?thesis by (rule distinct_count_one)
qed

















lemma create_fault_outcome:
  assumes parts: "3 \<le> length (split_on CHR ''/'' scope)"
    and pid: "resolve_principal e p = Some pid"
    and lst: "list_fault e scope = None"
    and fault: "create_fault e scope role = Some ex"
    and absent: "\<not> exact_in pid role (at_scope scope st)"
  shows "(\<not> (\<not> str_in owner_role_id role \<and> owner_in pid (at_scope scope st)
              \<and> \<not> str_in admin_role_id role) \<longrightarrow>
            assign_role_to_user e st scope role p
              = (handle_exception ex, st, [create_call e scope role pid]))
       \<and> assign_role_to_storage_account e st scope role p
              = (handle_exception ex, st, [create_call e scope role pid])"
  using fault absent
  by (auto simp: assign_role_to_user_closed [OF parts pid lst]
        assign_role_to_storage_account_closed [OF parts pid lst] Let_def)

lemma assign_each_role_reported:
  "(map_of (fst (assign_each_role e sid sub p role_ids (roles, st, calls))) r \<noteq> None)
     = (r \<in> set role_ids \<or> map_of roles r \<noteq> None)"
proof (induction role_ids arbitrary: roles st calls)
  case Nil
  then show ?case by simp
next
  case (Cons role_id rest)
  obtain ok st' calls' where step:
    "assign_role_to_storage_account e st sid
       (role_definition sub role_id) p
     = (ok, st', calls')"
    by (metis prod_cases3)
  show ?case
    using Cons.IH [of "AList.update role_id ok roles" st' "calls @ calls'"]
    by (auto simp: step Let_def update_conv')
qed

lemma reported_update:
  "reported (AList.update name roles results) name' r
     = (if name' = name then map_of roles r else reported results name' r)"
  by (simp add: reported_def update_conv')

lemma assign_each_account_reported:
  assumes "\<forall>sid\<in>set sids. 3 \<le> length (split_on CHR ''/'' sid)"
  shows "\<exists>results' st' calls'.
           assign_each_account e role_ids p sids (results, st, calls) = (Inr results', st', calls')
           \<and> (\<forall>name r. r \<in> set role_ids \<longrightarrow>
                 (name \<in> (\<lambda>sid. last (split_on CHR ''/'' sid)) ` set sids
                    \<or> reported results name r \<noteq> None)
                 \<longrightarrow> reported results' name r \<noteq> None)"
  using assms
proof (induction sids arbitrary: results st calls)
  case Nil
  then show ?case by simp
next
  case (Cons sid rest)
  let ?name = "last (split_on CHR ''/'' sid)"
  obtain roles st1 calls1 where inner:
    "assign_each_role e sid (split_on CHR ''/'' sid ! 2) p role_ids ([], st, calls) = (roles, st1, calls1)"
    by (metis prod_cases3)
  have roles: "map_of roles r \<noteq> None" if "r \<in> set role_ids" for r
    using assign_each_role_reported [of e sid "split_on CHR ''/'' sid ! 2" p role_ids "[]" st calls r]
      that by (simp add: inner)
  from Cons.prems have wf: "\<not> length (split_on CHR ''/'' sid) < 3"
    and rest: "\<forall>sid\<in>set rest. 3 \<le> length (split_on CHR ''/'' sid)" by auto
  obtain results' st' calls' where
    run: "assign_each_account e role_ids p rest (AList.update ?name roles results, st1, calls1)
            = (Inr results', st', calls')"
    and rep: "\<forall>name r. r \<in> set role_ids \<longrightarrow>
                 (name \<in> (\<lambda>sid. last (split_on CHR ''/'' sid)) ` set rest
                    \<or> reported (AList.update ?name roles results) name r \<noteq> None)
                 \<longrightarrow> reported results' name r \<noteq> None"
    using Cons.IH [OF rest, of "AList.update ?name roles results" st1 calls1] by blast
  have "assign_each_account e role_ids p (sid # rest) (results, st, calls) = (Inr results', st', calls')"
    using wf by (simp add: Let_def inner run)
  moreover have "reported results' name r \<noteq> None"
    if "r \<in> set role_ids"
       "name \<in> (\<lambda>sid. last (split_on CHR ''/'' sid)) ` set (sid # rest) \<or> reported results name r \<noteq> None"
    for name r
  proof (cases "name = ?name")
    case True
    then have "reported (AList.update ?name roles results) name r \<noteq> None"
      using roles [OF that(1)] by (simp add: reported_update)
    with rep that(1) show ?thesis by blast
  next
    case False
    with that(2) have "name \<in> (\<lambda>sid. last (split_on CHR ''/'' sid)) ` set rest
                    \<or> reported (AList.update ?name roles results) name r \<noteq> None"
      by (auto simp: reported_update)
    with rep that(1) show ?thesis by blast
  qed
  ultimately show ?case by blast
qed

lemma assign_storage_roles_to_user_returns:
  assumes "\<forall>sid\<in>set sids. 3 \<le> length (split_on CHR ''/'' sid)"
  shows "\<exists>results st' calls.
           assign_storage_roles_to_user e st sids vault_role p = (Inr results, st', calls)
           \<and> (\<forall>sid\<in>set sids. \<forall>r\<in>set (get_storage_role_assignments_for_vault_role vault_role).
                 reported results (last (split_on CHR ''/'' sid)) r \<noteq> None)"
proof (cases "sids = [] \<or> get_storage_role_assignments_for_vault_role vault_role = []")
  case True
  then show ?thesis by (auto simp: assign_storage_roles_to_user_def)
next
  case False
  obtain results st' calls where
    run: "assign_each_account e (get_storage_role_assignments_for_vault_role vault_role) p sids ([], st, [])
            = (Inr results, st', calls)"
    and rep: "\<forall>name r. r \<in> set (get_storage_role_assignments_for_vault_role vault_role) \<longrightarrow>
                 (name \<in> (\<lambda>sid. last (split_on CHR ''/'' sid)) ` set sids
                    \<or> reported [] name r \<noteq> None)
                 \<longrightarrow> reported results name r \<noteq> None"
    using assign_each_account_reported [OF assms] by blast
  have "assign_storage_roles_to_user e st sids vault_role p = (Inr results, st', calls)"
    using False by (simp add: assign_storage_roles_to_user_def Let_def run)
  moreover have "\<forall>sid\<in>set sids. \<forall>r\<in>set (get_storage_role_assignments_for_vault_role vault_role).
                 reported results (last (split_on CHR ''/'' sid)) r \<noteq> None"
    using rep by blast
  ultimately show ?thesis by blast
qed

lemma update_fresh: "k \<notin> fst ` set al \<Longrightarrow> AList.update k v al = al @ [(k, v)]"
  by (induction al) auto

lemma assign_each_role_attempt:
  assumes "distinct rs" "set rs \<inter> fst ` set acc = {}"
  shows "assign_each_role e sid (split_on CHR ''/'' sid ! 2) p rs (acc, st, calls) =
           (case attempt_roles e sid p rs st of
              (oks, st', cs) \<Rightarrow> (acc @ oks, st', calls @ cs))"
  using assms
proof (induction rs arbitrary: acc st calls)
  case Nil
  then show ?case by simp
next
  case (Cons r rs)
  obtain ok st1 c1 where step:
    "assign_role_to_storage_account e st sid (role_definition (split_on CHR ''/'' sid ! 2) r) p
       = (ok, st1, c1)" by (metis prod_cases3)
  obtain oks st2 c2 where rest: "attempt_roles e sid p rs st1 = (oks, st2, c2)"
    by (metis prod_cases3)
  from Cons.prems have fresh: "r \<notin> fst ` set acc" and d: "distinct rs" and r: "r \<notin> set rs"
    and disj: "set rs \<inter> fst ` set acc = {}" by auto
  have upd: "AList.update r ok acc = acc @ [(r, ok)]" using fresh by (rule update_fresh)
  have disj': "set rs \<inter> fst ` set (acc @ [(r, ok)]) = {}" using disj r by auto
  show ?case
    using Cons.IH [OF d disj', of st1 "calls @ c1"]
    by (simp add: step rest upd Let_def)
qed

lemma assign_each_account_attempt:
  assumes "distinct rs"
    and "distinct (map (\<lambda>sid. last (split_on CHR ''/'' sid)) sids)"
    and "(\<lambda>sid. last (split_on CHR ''/'' sid)) ` set sids \<inter> fst ` set results = {}"
    and "\<forall>sid\<in>set sids. 3 \<le> length (split_on CHR ''/'' sid)"
  shows "assign_each_account e rs p sids (results, st, calls) =
           (case attempt_accounts e p rs sids st of
              (outs, st', cs) \<Rightarrow> (Inr (results @ outs), st', calls @ cs))"
  using assms(2-)
proof (induction sids arbitrary: results st calls)
  case Nil
  then show ?case by simp
next
  case (Cons sid sids)
  let ?name = "last (split_on CHR ''/'' sid)"
  obtain oks st1 c1 where inner: "attempt_roles e sid p rs st = (oks, st1, c1)"
    by (metis prod_cases3)
  obtain outs st2 c2 where rest: "attempt_accounts e p rs sids st1 = (outs, st2, c2)"
    by (metis prod_cases3)
  have loop: "assign_each_role e sid (split_on CHR ''/'' sid ! 2) p rs ([], st, calls)
                = (oks, st1, calls @ c1)"
    using assign_each_role_attempt [OF assms(1), of "[]" e sid p st calls] by (simp add: inner)
  from Cons.prems have wf: "\<not> length (split_on CHR ''/'' sid) < 3"
    and wf': "\<forall>sid\<in>set sids. 3 \<le> length (split_on CHR ''/'' sid)"
    and fresh: "?name \<notin> fst ` set results"
    and d: "distinct (map (\<lambda>sid. last (split_on CHR ''/'' sid)) sids)"
    and n: "?name \<notin> (\<lambda>sid. last (split_on CHR ''/'' sid)) ` set sids"
    and disj: "(\<lambda>sid. last (split_on CHR ''/'' sid)) ` set sids \<inter> fst ` set results = {}"
    by auto
  have upd: "AList.update ?name oks results = results @ [(?name, oks)]"
    using fresh by (rule update_fresh)
  have disj': "(\<lambda>sid. last (split_on CHR ''/'' sid)) ` set sids
                 \<inter> fst ` set (results @ [(?name, oks)]) = {}"
    using disj n by auto
  show ?case
    using wf Cons.IH [OF d disj' wf', of st1 "calls @ c1"]
    by (simp add: Let_def loop inner rest upd)
qed

lemma mapped_roles_distinct: "distinct (get_storage_role_assignments_for_vault_role v)"
proof -
  have "STORAGE_ACCOUNT_CONTRIBUTOR_ROLE_ID \<noteq> STORAGE_BLOB_DATA_OWNER_ROLE_ID" by code_simp
  then show ?thesis by (simp add: get_storage_role_assignments_for_vault_role_def)
qed

lemma assign_storage_roles_to_user_attempt:
  assumes "distinct (map (\<lambda>sid. last (split_on CHR ''/'' sid)) sids)"
    and "\<forall>sid\<in>set sids. 3 \<le> length (split_on CHR ''/'' sid)"
    and "sids \<noteq> []" "get_storage_role_assignments_for_vault_role v \<noteq> []"
  shows "assign_storage_roles_to_user e st sids v p =
           (case attempt_accounts e p (get_storage_role_assignments_for_vault_role v) sids st of
              (outs, st', cs) \<Rightarrow> (Inr outs, st', cs))"
  using assign_each_account_attempt
          [where rs = "get_storage_role_assignments_for_vault_role v" and sids = sids
             and results = "[]" and e = e and p = p and st = st and calls = "[]",
           OF mapped_roles_distinct assms(1) _ assms(2)]
    assms(3,4)
  by (simp add: assign_storage_roles_to_user_def Let_def)

lemma assign_role_to_user_failed:
  "\<not> fst (assign_role_to_user e st scope role p) \<Longrightarrow>
     fst (snd (assign_role_to_user e st scope role p)) = st"
  by (auto simp: assign_role_to_user_def Let_def remove_redundant_closed create_assignment_def
      split: option.splits sum.splits prod.splits if_splits)

lemma assign_role_to_storage_account_failed:
  "\<not> fst (assign_role_to_storage_account e st scope role p) \<Longrightarrow>
     fst (snd (assign_role_to_storage_account e st scope role p)) = st"
  by (auto simp: assign_role_to_storage_account_def Let_def create_assignment_def
      split: option.splits sum.splits prod.splits if_splits)

lemma assign_all_gated:
  assumes wf: "\<forall>sid\<in>set (discover_associated_storage_accounts e uri). 3 \<le> length (split_on CHR ''/'' sid)"
  shows "let r1 = assign_role_to_user e st uri (role_definition sub owner_role_id) user;
             r2 = assign_role_to_user e (fst (snd r1)) uri (role_definition sub admin_role_id) user;
             sids = discover_associated_storage_accounts e uri;
             r3 = (if sids \<noteq> [] \<and> fst r1 then
                     assign_storage_roles_to_user e (fst (snd r2)) sids (role_definition sub owner_role_id) user
                   else if sids \<noteq> [] \<and> fst r2 then
                     assign_storage_roles_to_user e (fst (snd r2)) sids (role_definition sub admin_role_id) user
                   else (Inr [], fst (snd r2), []))
         in \<exists>code body results.
              assign_all e st user uri sub creator
                = (RoleResponse code body, fst (snd r3), snd (snd r1) @ snd (snd r2) @ snd (snd r3))
              \<and> fst r3 = Inr results
              \<and> ownerRoleAssigned body = fst r1
              \<and> adminRoleAssigned body = fst r2
              \<and> assignments body = results
              \<and> storage_success body = (sids = [] \<or> all_succeeded results)
              \<and> success body = (fst r1 \<and> fst r2 \<and> storage_success body)"
proof -
  obtain ow st1 c1 where r1: "assign_role_to_user e st uri (role_definition sub owner_role_id) user = (ow, st1, c1)"
    by (metis prod_cases3)
  obtain ad st2 c2 where r2: "assign_role_to_user e st1 uri (role_definition sub admin_role_id) user = (ad, st2, c2)"
    by (metis prod_cases3)
  let ?sids = "discover_associated_storage_accounts e uri"
  let ?r3 = "(if ?sids \<noteq> [] \<and> ow then
                     assign_storage_roles_to_user e st2 ?sids (role_definition sub owner_role_id) user
                   else if ?sids \<noteq> [] \<and> ad then
                     assign_storage_roles_to_user e st2 ?sids (role_definition sub admin_role_id) user
                   else (Inr [], st2, []))"
  have "\<exists>results st3 c3. ?r3 = (Inr results, st3, c3)"
    using assign_storage_roles_to_user_returns [OF wf, of e st2 "role_definition sub owner_role_id" user]
          assign_storage_roles_to_user_returns [OF wf, of e st2 "role_definition sub admin_role_id" user]
    by (cases "?sids = []"; cases ow; cases ad) auto
  then obtain results st3 c3 where r3: "?r3 = (Inr results, st3, c3)" by blast
  have code: "(if ?sids \<noteq> [] then
                  (if ow then assign_storage_roles_to_user e st2 ?sids (role_definition sub owner_role_id) user
                   else if ad then assign_storage_roles_to_user e st2 ?sids (role_definition sub admin_role_id) user
                   else (Inr [], st2, []))
                else (Inr [], st2, [])) = ?r3"
    by simp
  have "assign_all e st user uri sub creator =
          (RoleResponse (if ow \<and> ad \<and> (?sids = [] \<or> all_succeeded results) then 200 else 500)
             \<lparr>success = (ow \<and> ad \<and> (?sids = [] \<or> all_succeeded results)),
              ownerRoleAssigned = ow, adminRoleAssigned = ad, resourceUri = uri, userId = user,
              isCreator = is_creator_value creator user, discovered = length ?sids,
              assignments = results,
              storage_success = (?sids = [] \<or> all_succeeded results)\<rparr>,
           st3, c1 @ c2 @ c3)"
    unfolding assign_all_def Let_def r1 prod.case r2 code r3 sum.case
    by auto
  then show ?thesis
    unfolding Let_def r1 fst_conv snd_conv r2 r3
    by simp
qed

lemma process_vault_info_awaited:
  "(map_of tags ''CreatedByID'' = None \<longrightarrow>
      process_vault_info e st user uri sub (DictObject tags)
        = (fst (assign_all e st user uri sub None), fst (snd (assign_all e st user uri sub None)),
           snd (snd (assign_all e st user uri sub None)),
           [Warning ''Vault does not have CreatedByID tag, cannot verify creator'']))
   \<and> (map_of tags ''CreatedByID'' = Some c \<and> c \<noteq> [] \<and> lower c \<noteq> lower user \<longrightarrow>
      process_vault_info e st user uri sub (DictObject tags)
        = (Unauthorized user c, st, [], [Error ''User is not the creator of the vault'']))
   \<and> (map_of tags ''CreatedByID'' = Some c \<and> c \<noteq> [] \<and> lower c = lower user \<longrightarrow>
      (\<forall>code body. fst (process_vault_info e st user uri sub (DictObject tags)) = RoleResponse code body
         \<longrightarrow> isCreator body = PyBool True))"
  by (auto simp: process_vault_info_def falsy_def tags_of_def Let_def assign_all_def
        is_creator_value_def split: prod.splits sum.splits)


section \<open>Properties of the reconcilers\<close>

text \<open>
  C5: a principal holds the Owner role at a scope and a role other than Owner is
  reconciled for it there (the resource id has its three parts, the principal
  resolves, the listing succeeds). If the target is not the Administrator role, the
  pair is satisfied: the result is \<open>True\<close>, nothing changes and no call is issued. If
  the target is the Administrator role, the exact assignment is left alone when it
  exists, and otherwise one create call for it is issued, which adds the assignment
  when the provider accepts it.
\<close>

theorem lesser_role_with_owner_held:
  assumes parts: "3 \<le> length (split_on CHR ''/'' scope)"
    and pid: "resolve_principal e p = Some pid"
    and lst: "list_fault e scope = None"
    and lesser: "\<not> str_in owner_role_id role"
    and owner: "owner_in pid (at_scope scope st)"
  shows "(\<not> str_in admin_role_id role \<longrightarrow>
            assign_role_to_user e st scope role p = (True, st, []))
       \<and> (str_in admin_role_id role \<and> exact_in pid role (at_scope scope st) \<longrightarrow>
            assign_role_to_user e st scope role p = (True, st, []))
       \<and> (str_in admin_role_id role \<and> \<not> exact_in pid role (at_scope scope st) \<longrightarrow>
            snd (snd (assign_role_to_user e st scope role p)) = [create_call e scope role pid]
            \<and> (create_fault e scope role = None \<longrightarrow>
                 assign_role_to_user e st scope role p =
                   (True, st @ [new_assignment e scope role pid], [create_call e scope role pid])))"
  using lesser owner
  by (auto simp: assign_role_to_user_closed [OF parts pid lst] without_Nil delete_calls_Nil
      split: option.splits)

theorem lesser_role_with_owner_held_witness:
  "assign_role_to_user quiet_env [holds ''held-owner'' test_vault owner_definition test_principal]
       test_vault (role_definition ''test-sub'' STORAGE_BLOB_DATA_OWNER_ROLE_ID) test_principal
     = (True, [holds ''held-owner'' test_vault owner_definition test_principal], [])
   \<and> assign_role_to_user quiet_env [holds ''held-owner'' test_vault owner_definition test_principal]
       test_vault admin_definition test_principal
     = (True,
        [holds ''held-owner'' test_vault owner_definition test_principal,
         new_assignment quiet_env test_vault admin_definition test_principal],
        [create_call quiet_env test_vault admin_definition test_principal])"
proof -
  let ?st = "[holds ''held-owner'' test_vault owner_definition test_principal]"
  let ?other = "role_definition ''test-sub'' STORAGE_BLOB_DATA_OWNER_ROLE_ID"
  have parts: "3 \<le> length (split_on CHR ''/'' test_vault)"
    and pid: "resolve_principal quiet_env test_principal = Some test_principal"
    and lst: "list_fault quiet_env test_vault = None"
    and lesser: "\<not> str_in owner_role_id ?other" "\<not> str_in owner_role_id admin_definition"
    and owner: "owner_in test_principal (at_scope test_vault ?st)"
    and kind: "\<not> str_in admin_role_id ?other" "str_in admin_role_id admin_definition"
    and absent: "\<not> exact_in test_principal admin_definition (at_scope test_vault ?st)"
    and create: "create_fault quiet_env test_vault admin_definition = None"
    by code_simp+
  have "assign_role_to_user quiet_env ?st test_vault ?other test_principal = (True, ?st, [])"
    using lesser_role_with_owner_held [OF parts pid lst lesser(1) owner] kind(1) by blast
  moreover have "assign_role_to_user quiet_env ?st test_vault admin_definition test_principal
     = (True, ?st @ [new_assignment quiet_env test_vault admin_definition test_principal],
        [create_call quiet_env test_vault admin_definition test_principal])"
    using lesser_role_with_owner_held [OF parts pid lst lesser(2) owner] kind(2) absent create
    by blast
  ultimately show ?thesis by simp
qed

text \<open>
  The two paths of \<open>assign_role_to_user\<close> that reach the cleanup: a principal has, at
  a scope, an assignment of another role than the Owner role being granted (its
  Administrator assignment in particular), the listing succeeds, names are unique at
  the scope, and the Owner assignment is already listed or its create call returns.
  Then the result is \<open>True\<close> whether the delete call raises or not, exactly one delete
  call is issued for that assignment, and the assignment is gone unless its delete
  call raised.
\<close>

lemma owner_grant_cleanup:
  assumes parts: "3 \<le> length (split_on CHR ''/'' scope)"
    and pid: "resolve_principal e p = Some pid"
    and lst: "list_fault e scope = None"
    and owner: "str_in owner_role_id role"
    and a: "a \<in> set (at_scope scope st)" "ra_principal_id a = pid"
           "ra_role_definition_id a \<noteq> role"
    and uniq: "distinct (map ra_name (at_scope scope st))"
    and granted: "exact_in pid role (at_scope scope st) \<or> create_fault e scope role = None"
  shows "fst (assign_role_to_user e st scope role p) = True
       \<and> count_list (snd (snd (assign_role_to_user e st scope role p)))
            (DeleteCall scope (ra_name a)) = 1
       \<and> (a \<in> set (fst (snd (assign_role_to_user e st scope role p)))
            \<longleftrightarrow> delete_fault e scope (ra_name a))"
proof -
  let ?red = "others_in pid role (at_scope scope st)"
  have cnt: "count_list (delete_calls scope ?red) (DeleteCall scope (ra_name a)) = 1"
    using others_in_names [OF uniq a] by (simp add: count_delete_calls)
  have a_red: "a \<in> set ?red" using a by (simp add: others_in_def)
  have a_st: "a \<in> set st" "ra_scope a = scope" using a(1) by (simp_all add: at_scope_def)
  have keep: "a \<in> set (without e scope ?red st') \<longleftrightarrow> delete_fault e scope (ra_name a)"
    if "a \<in> set st'" for st'
    using that a_red a_st by (auto simp: without_def)
  have nc: "create_call e scope role pid \<noteq> DeleteCall scope (ra_name a)"
    by (simp add: create_call_def)
  show ?thesis
  proof (cases "exact_in pid role (at_scope scope st)")
    case True
    then show ?thesis
      using owner cnt keep [of st] a_st
      by (simp add: assign_role_to_user_closed [OF parts pid lst] Let_def)
  next
    case False
    with granted have "create_fault e scope role = None" by simp
    then show ?thesis
      using False owner cnt nc keep [of "st @ [new_assignment e scope role pid]"] a_st
      by (simp add: assign_role_to_user_closed [OF parts pid lst] Let_def)
  qed
qed

lemma owner_grant_cleanup_example:
  "fst (assign_role_to_user delete_raises [holds ''held-admin'' test_vault admin_definition test_principal]
          test_vault owner_definition test_principal)
   \<and> count_list (snd (snd (assign_role_to_user delete_raises
                              [holds ''held-admin'' test_vault admin_definition test_principal]
                              test_vault owner_definition test_principal)))
        (DeleteCall test_vault ''held-admin'') = 1
   \<and> holds ''held-admin'' test_vault admin_definition test_principal
        \<in> set (fst (snd (assign_role_to_user delete_raises
                            [holds ''held-admin'' test_vault admin_definition test_principal]
                            test_vault owner_definition test_principal)))"
proof -
  let ?a = "holds ''held-admin'' test_vault admin_definition test_principal"
  have parts: "3 \<le> length (split_on CHR ''/'' test_vault)"
    and pid: "resolve_principal delete_raises test_principal = Some test_principal"
    and lst: "list_fault delete_raises test_vault = None"
    and owner: "str_in owner_role_id owner_definition"
    and a: "?a \<in> set (at_scope test_vault [?a])" "ra_principal_id ?a = test_principal"
           "ra_role_definition_id ?a \<noteq> owner_definition"
    and uniq: "distinct (map ra_name (at_scope test_vault [?a]))"
    and granted: "exact_in test_principal owner_definition (at_scope test_vault [?a])
                  \<or> create_fault delete_raises test_vault owner_definition = None"
    and name: "ra_name ?a = ''held-admin''"
    and fails: "delete_fault delete_raises test_vault (ra_name ?a)"
    by code_simp+
  show ?thesis
    using owner_grant_cleanup [OF parts pid lst owner a uniq granted] fails
    by (simp add: name)
qed

text \<open>
  C4 fails on the code. A principal holds the Administrator assignment at a scope and
  the Owner role is granted to it there. When the create call is answered with
  ``already exists'' (another writer created the assignment after the listing), the
  outcome is success, the only call issued is the create call, and the Administrator
  assignment stays: the \<open>except\<close> clause returns \<open>True\<close> without the cleanup. The two
  sibling paths, Owner already listed and Owner created by this call, do issue the one
  delete call, as the docstring of \<open>assign_role_to_user\<close> promises.
\<close>

theorem owner_grant_conflict_skips_cleanup:
  "assign_role_to_user (create_raises ''The role assignment already exists.'')
      [holds ''held-admin'' test_vault admin_definition test_principal]
      test_vault owner_definition test_principal
   = (True, [holds ''held-admin'' test_vault admin_definition test_principal],
      [CreateCall test_vault (''new:'' @ owner_definition) owner_definition test_principal
         ''ServicePrincipal''])
   \<and> assign_role_to_user quiet_env
      [holds ''held-admin'' test_vault admin_definition test_principal,
       holds ''held-owner'' test_vault owner_definition test_principal]
      test_vault owner_definition test_principal
   = (True, [holds ''held-owner'' test_vault owner_definition test_principal],
      [DeleteCall test_vault ''held-admin''])
   \<and> assign_role_to_user quiet_env
      [holds ''held-admin'' test_vault admin_definition test_principal]
      test_vault owner_definition test_principal
   = (True, [new_assignment quiet_env test_vault owner_definition test_principal],
      [CreateCall test_vault (''new:'' @ owner_definition) owner_definition test_principal
         ''ServicePrincipal'',
       DeleteCall test_vault ''held-admin''])"
  by code_simp

text \<open>
  C6 as the code has it. An \<open>HttpResponseError\<close> whose text contains
  \<open>already exists\<close> or \<open>PrincipalNotFound\<close> is a success, every other exception a
  failure. When the create call of a pair raises, either reconciler returns that
  boolean, leaves the provider's state as it was and has issued the one create call;
  a pair that fails, for whatever reason, leaves the state as it was. Once the
  storage cascade runs, it attempts every (storage, role) pair in order, each on the
  state the pair before it left, and records each outcome as the pair's own
  reconciliation returned it (for storage ids with their three parts and distinct
  names). The handler reconciles Owner, then Administrator on the state Owner left,
  whatever Owner returned, and reports both outcomes. Which storage pairs are attempted
  depends on those two outcomes: the roles mapped from Owner if Owner succeeded,
  otherwise the roles mapped from Administrator if Administrator succeeded, otherwise
  none.
\<close>

theorem provider_error_outcome:
  "handle_exception (HttpResponseError msg) =
     (str_in ''already exists'' msg \<or> str_in ''PrincipalNotFound'' msg)
   \<and> handle_exception (OtherException msg) = False
   \<and> (3 \<le> length (split_on CHR ''/'' scope) \<and> resolve_principal e p = Some pid
        \<and> list_fault e scope = None \<and> create_fault e scope role = Some ex
        \<and> \<not> exact_in pid role (at_scope scope st) \<longrightarrow>
        (\<not> (\<not> str_in owner_role_id role \<and> owner_in pid (at_scope scope st)
              \<and> \<not> str_in admin_role_id role) \<longrightarrow>
            assign_role_to_user e st scope role p
              = (handle_exception ex, st, [create_call e scope role pid]))
        \<and> assign_role_to_storage_account e st scope role p
              = (handle_exception ex, st, [create_call e scope role pid]))
   \<and> (\<not> fst (assign_role_to_user e st scope role p) \<longrightarrow>
        fst (snd (assign_role_to_user e st scope role p)) = st)
   \<and> (\<not> fst (assign_role_to_storage_account e st scope role p) \<longrightarrow>
        fst (snd (assign_role_to_storage_account e st scope role p)) = st)
   \<and> ((\<forall>sid\<in>set sids. 3 \<le> length (split_on CHR ''/'' sid)) \<longrightarrow>
        (\<exists>results st' calls.
           assign_storage_roles_to_user e st sids vault_role p = (Inr results, st', calls)
           \<and> (\<forall>sid\<in>set sids. \<forall>r\<in>set (get_storage_role_assignments_for_vault_role vault_role).
                 reported results (last (split_on CHR ''/'' sid)) r \<noteq> None)))
   \<and> ((\<forall>sid\<in>set sids. 3 \<le> length (split_on CHR ''/'' sid))
        \<and> distinct (map (\<lambda>sid. last (split_on CHR ''/'' sid)) sids)
        \<and> sids \<noteq> [] \<and> get_storage_role_assignments_for_vault_role vault_role \<noteq> [] \<longrightarrow>
        assign_storage_roles_to_user e st sids vault_role p =
           (case attempt_accounts e p (get_storage_role_assignments_for_vault_role vault_role) sids st of
              (outs, st', calls) \<Rightarrow> (Inr outs, st', calls)))
   \<and> ((\<forall>sid\<in>set (discover_associated_storage_accounts e uri). 3 \<le> length (split_on CHR ''/'' sid)) \<longrightarrow>
        (let r1 = assign_role_to_user e st uri (role_definition sub owner_role_id) user;
             r2 = assign_role_to_user e (fst (snd r1)) uri (role_definition sub admin_role_id) user;
             found = discover_associated_storage_accounts e uri;
             r3 = (if found \<noteq> [] \<and> fst r1 then
                     assign_storage_roles_to_user e (fst (snd r2)) found (role_definition sub owner_role_id) user
                   else if found \<noteq> [] \<and> fst r2 then
                     assign_storage_roles_to_user e (fst (snd r2)) found (role_definition sub admin_role_id) user
                   else (Inr [], fst (snd r2), []))
         in \<exists>code body results.
              assign_all e st user uri sub creator
                = (RoleResponse code body, fst (snd r3), snd (snd r1) @ snd (snd r2) @ snd (snd r3))
              \<and> fst r3 = Inr results
              \<and> ownerRoleAssigned body = fst r1
              \<and> adminRoleAssigned body = fst r2
              \<and> assignments body = results
              \<and> storage_success body = (found = [] \<or> all_succeeded results)
              \<and> success body = (fst r1 \<and> fst r2 \<and> storage_success body)))"
proof -
  have c1: "handle_exception (HttpResponseError msg) =
     (str_in ''already exists'' msg \<or> str_in ''PrincipalNotFound'' msg)"
    and c2: "handle_exception (OtherException msg) = False"
    by (simp_all add: handle_exception_cases)
  have c3: "3 \<le> length (split_on CHR ''/'' scope) \<and> resolve_principal e p = Some pid
        \<and> list_fault e scope = None \<and> create_fault e scope role = Some ex
        \<and> \<not> exact_in pid role (at_scope scope st) \<longrightarrow>
        (\<not> (\<not> str_in owner_role_id role \<and> owner_in pid (at_scope scope st)
              \<and> \<not> str_in admin_role_id role) \<longrightarrow>
            assign_role_to_user e st scope role p
              = (handle_exception ex, st, [create_call e scope role pid]))
        \<and> assign_role_to_storage_account e st scope role p
              = (handle_exception ex, st, [create_call e scope role pid])"
    using create_fault_outcome [of scope e p pid role ex st] by blast
  have c4: "\<not> fst (assign_role_to_user e st scope role p) \<longrightarrow>
        fst (snd (assign_role_to_user e st scope role p)) = st"
    using assign_role_to_user_failed by blast
  have c5: "\<not> fst (assign_role_to_storage_account e st scope role p) \<longrightarrow>
        fst (snd (assign_role_to_storage_account e st scope role p)) = st"
    using assign_role_to_storage_account_failed by blast
  have c6: "(\<forall>sid\<in>set sids. 3 \<le> length (split_on CHR ''/'' sid)) \<longrightarrow>
        (\<exists>results st' calls.
           assign_storage_roles_to_user e st sids vault_role p = (Inr results, st', calls)
           \<and> (\<forall>sid\<in>set sids. \<forall>r\<in>set (get_storage_role_assignments_for_vault_role vault_role).
                 reported results (last (split_on CHR ''/'' sid)) r \<noteq> None))"
    using assign_storage_roles_to_user_returns [of sids e st vault_role p] by blast
  have c7: "(\<forall>sid\<in>set sids. 3 \<le> length (split_on CHR ''/'' sid))
        \<and> distinct (map (\<lambda>sid. last (split_on CHR ''/'' sid)) sids)
        \<and> sids \<noteq> [] \<and> get_storage_role_assignments_for_vault_role vault_role \<noteq> [] \<longrightarrow>
        assign_storage_roles_to_user e st sids vault_role p =
           (case attempt_accounts e p (get_storage_role_assignments_for_vault_role vault_role) sids st of
              (outs, st', calls) \<Rightarrow> (Inr outs, st', calls))"
    using assign_storage_roles_to_user_attempt [of sids vault_role e st p] by blast
  have c8: "(\<forall>sid\<in>set (discover_associated_storage_accounts e uri). 3 \<le> length (split_on CHR ''/'' sid)) \<longrightarrow>
        (let r1 = assign_role_to_user e st uri (role_definition sub owner_role_id) user;
             r2 = assign_role_to_user e (fst (snd r1)) uri (role_definition sub admin_role_id) user;
             found = discover_associated_storage_accounts e uri;
             r3 = (if found \<noteq> [] \<and> fst r1 then
                     assign_storage_roles_to_user e (fst (snd r2)) found (role_definition sub owner_role_id) user
                   else if found \<noteq> [] \<and> fst r2 then
                     assign_storage_roles_to_user e (fst (snd r2)) found (role_definition sub admin_role_id) user
                   else (Inr [], fst (snd r2), []))
         in \<exists>code body results.
              assign_all e st user uri sub creator
                = (RoleResponse code body, fst (snd r3), snd (snd r1) @ snd (snd r2) @ snd (snd r3))
              \<and> fst r3 = Inr results
              \<and> ownerRoleAssigned body = fst r1
              \<and> adminRoleAssigned body = fst r2
              \<and> assignments body = results
              \<and> storage_success body = (found = [] \<or> all_succeeded results)
              \<and> success body = (fst r1 \<and> fst r2 \<and> storage_success body))"
    by (rule impI) (rule assign_all_gated)
  show ?thesis
    by (intro conjI) (fact c1, fact c2, fact c3, fact c4, fact c5, fact c6, fact c7, fact c8)
qed

theorem provider_error_outcome_witness:
  "assign_role_to_user refusing_env [] test_vault owner_definition test_principal
     = (False, [], [create_call refusing_env test_vault owner_definition test_principal])
   \<and> assign_role_to_storage_account refusing_env [] (storage_id ''vstorage'')
        (role_definition ''test-sub'' STORAGE_BLOB_DATA_OWNER_ROLE_ID) test_principal
     = (False, [], [create_call refusing_env (storage_id ''vstorage'')
                      (role_definition ''test-sub'' STORAGE_BLOB_DATA_OWNER_ROLE_ID) test_principal])
   \<and> assign_storage_roles_to_user contributor_refusing_env [] [storage_id ''vstorage'']
        owner_definition test_principal
     = (Inr [(''vstorage'', [(STORAGE_ACCOUNT_CONTRIBUTOR_ROLE_ID, False),
                            (STORAGE_BLOB_DATA_OWNER_ROLE_ID, True)])],
        [new_assignment contributor_refusing_env (storage_id ''vstorage'')
           (role_definition ''test-sub'' STORAGE_BLOB_DATA_OWNER_ROLE_ID) test_principal],
        [create_call contributor_refusing_env (storage_id ''vstorage'')
           (role_definition ''test-sub'' STORAGE_ACCOUNT_CONTRIBUTOR_ROLE_ID) test_principal,
         create_call contributor_refusing_env (storage_id ''vstorage'')
           (role_definition ''test-sub'' STORAGE_BLOB_DATA_OWNER_ROLE_ID) test_principal])
   \<and> (\<exists>results st' calls.
         assign_storage_roles_to_user refusing_env [] [storage_id ''vstorage''] owner_definition test_principal
           = (Inr results, st', calls)
         \<and> reported results ''vstorage'' STORAGE_ACCOUNT_CONTRIBUTOR_ROLE_ID \<noteq> None
         \<and> reported results ''vstorage'' STORAGE_BLOB_DATA_OWNER_ROLE_ID \<noteq> None)
   \<and> (\<exists>code body.
         assign_all refusing_env [] test_principal test_vault ''test-sub'' None
           = (RoleResponse code body, [],
              [create_call refusing_env test_vault owner_definition test_principal,
               create_call refusing_env test_vault admin_definition test_principal])
         \<and> \<not> ownerRoleAssigned body \<and> \<not> adminRoleAssigned body \<and> \<not> success body)"
proof -
  let ?sbdo = "role_definition ''test-sub'' STORAGE_BLOB_DATA_OWNER_ROLE_ID"
  let ?refused = "HttpResponseError ''AuthorizationFailed''"
  have parts: "3 \<le> length (split_on CHR ''/'' test_vault)"
    and parts': "3 \<le> length (split_on CHR ''/'' (storage_id ''vstorage''))"
    and pid: "resolve_principal refusing_env test_principal = Some test_principal"
    and lst: "list_fault refusing_env test_vault = None"
             "list_fault refusing_env (storage_id ''vstorage'') = None"
    and fault: "create_fault refusing_env test_vault owner_definition = Some ?refused"
               "create_fault refusing_env (storage_id ''vstorage'') ?sbdo = Some ?refused"
    and absent: "\<not> exact_in test_principal owner_definition (at_scope test_vault [])"
                "\<not> exact_in test_principal ?sbdo (at_scope (storage_id ''vstorage'') [])"
    and reach: "\<not> (\<not> str_in owner_role_id owner_definition
                    \<and> owner_in test_principal (at_scope test_vault [])
                    \<and> \<not> str_in admin_role_id owner_definition)"
    and refused: "\<not> handle_exception ?refused"
    by code_simp+
  have wf: "\<forall>sid\<in>set [storage_id ''vstorage'']. 3 \<le> length (split_on CHR ''/'' sid)"
    using parts' by simp
  have names: "distinct (map (\<lambda>sid. last (split_on CHR ''/'' sid)) [storage_id ''vstorage''])"
    and some: "[storage_id ''vstorage''] \<noteq> []" by simp_all
  have disc: "discover_associated_storage_accounts refusing_env test_vault = [storage_id ''vstorage'']"
    by code_simp
  have map: "get_storage_role_assignments_for_vault_role owner_definition
               = [STORAGE_ACCOUNT_CONTRIBUTOR_ROLE_ID, STORAGE_BLOB_DATA_OWNER_ROLE_ID]"
    and name: "last (split_on CHR ''/'' (storage_id ''vstorage'')) = ''vstorage''"
    by code_simp+
  note thm1 = provider_error_outcome
      [where msg = "''AuthorizationFailed''" and scope = test_vault and e = refusing_env
         and p = test_principal and pid = test_principal and role = owner_definition
         and ex = ?refused and st = "[]" and sids = "[storage_id ''vstorage'']"
         and vault_role = owner_definition and uri = test_vault and user = test_principal
         and sub = "''test-sub''" and creator = None]
  note thm2 = provider_error_outcome
      [where msg = "''AuthorizationFailed''" and scope = "storage_id ''vstorage''"
         and e = refusing_env and p = test_principal and pid = test_principal and role = ?sbdo
         and ex = ?refused and st = "[]" and sids = "[storage_id ''vstorage'']"
         and vault_role = owner_definition and uri = test_vault and user = test_principal
         and sub = "''test-sub''" and creator = None]
  note thm3 = provider_error_outcome
      [where msg = "''AuthorizationFailed''" and scope = "storage_id ''vstorage''"
         and e = contributor_refusing_env and p = test_principal and pid = test_principal
         and role = ?sbdo and ex = ?refused and st = "[]" and sids = "[storage_id ''vstorage'']"
         and vault_role = owner_definition and uri = test_vault and user = test_principal
         and sub = "''test-sub''" and creator = None]
  have a: "assign_role_to_user refusing_env [] test_vault owner_definition test_principal
     = (False, [], [create_call refusing_env test_vault owner_definition test_principal])"
    using thm1 [THEN conjunct2, THEN conjunct2, THEN conjunct1]
      parts pid lst(1) fault(1) absent(1) reach refused by simp
  have b: "assign_role_to_storage_account refusing_env [] (storage_id ''vstorage'') ?sbdo test_principal
     = (False, [], [create_call refusing_env (storage_id ''vstorage'') ?sbdo test_principal])"
    using thm2 [THEN conjunct2, THEN conjunct2, THEN conjunct1]
      parts' pid lst(2) fault(2) absent(2) refused by simp
  have attempt: "attempt_accounts contributor_refusing_env test_principal
                   [STORAGE_ACCOUNT_CONTRIBUTOR_ROLE_ID, STORAGE_BLOB_DATA_OWNER_ROLE_ID]
                   [storage_id ''vstorage''] []
     = ([(''vstorage'', [(STORAGE_ACCOUNT_CONTRIBUTOR_ROLE_ID, False),
                         (STORAGE_BLOB_DATA_OWNER_ROLE_ID, True)])],
        [new_assignment contributor_refusing_env (storage_id ''vstorage'') ?sbdo test_principal],
        [create_call contributor_refusing_env (storage_id ''vstorage'')
           (role_definition ''test-sub'' STORAGE_ACCOUNT_CONTRIBUTOR_ROLE_ID) test_principal,
         create_call contributor_refusing_env (storage_id ''vstorage'') ?sbdo test_principal])"
    by code_simp
  have "assign_storage_roles_to_user contributor_refusing_env [] [storage_id ''vstorage'']
          owner_definition test_principal
        = (case attempt_accounts contributor_refusing_env test_principal
                  (get_storage_role_assignments_for_vault_role owner_definition)
                  [storage_id ''vstorage''] [] of
             (outs, st', calls) \<Rightarrow> (Inr outs, st', calls))"
    using thm3 [THEN conjunct2, THEN conjunct2, THEN conjunct2, THEN conjunct2, THEN conjunct2,
                THEN conjunct2, THEN conjunct1] wf names some
    by (simp only: map) simp
  then have c: "assign_storage_roles_to_user contributor_refusing_env [] [storage_id ''vstorage'']
        owner_definition test_principal
     = (Inr [(''vstorage'', [(STORAGE_ACCOUNT_CONTRIBUTOR_ROLE_ID, False),
                            (STORAGE_BLOB_DATA_OWNER_ROLE_ID, True)])],
        [new_assignment contributor_refusing_env (storage_id ''vstorage'') ?sbdo test_principal],
        [create_call contributor_refusing_env (storage_id ''vstorage'')
           (role_definition ''test-sub'' STORAGE_ACCOUNT_CONTRIBUTOR_ROLE_ID) test_principal,
         create_call contributor_refusing_env (storage_id ''vstorage'') ?sbdo test_principal])"
    by (simp only: map attempt prod.case)
  have d: "\<exists>results st' calls.
         assign_storage_roles_to_user refusing_env [] [storage_id ''vstorage''] owner_definition test_principal
           = (Inr results, st', calls)
         \<and> reported results ''vstorage'' STORAGE_ACCOUNT_CONTRIBUTOR_ROLE_ID \<noteq> None
         \<and> reported results ''vstorage'' STORAGE_BLOB_DATA_OWNER_ROLE_ID \<noteq> None"
    using thm1 [THEN conjunct2, THEN conjunct2, THEN conjunct2, THEN conjunct2, THEN conjunct2,
                THEN conjunct1] wf
    by (simp add: map name)
  have r1: "assign_role_to_user refusing_env [] test_vault (role_definition ''test-sub'' owner_role_id) test_principal
              = (False, [], [create_call refusing_env test_vault owner_definition test_principal])"
    using a by (simp add: owner_definition_def)
  have r2: "assign_role_to_user refusing_env [] test_vault (role_definition ''test-sub'' admin_role_id) test_principal
              = (False, [], [create_call refusing_env test_vault admin_definition test_principal])"
    by code_simp
  have "\<exists>code body results.
         assign_all refusing_env [] test_principal test_vault ''test-sub'' None
           = (RoleResponse code body, [],
              [create_call refusing_env test_vault owner_definition test_principal] @
              [create_call refusing_env test_vault admin_definition test_principal] @ [])
         \<and> (Inr [] :: py_exception + (string \<times> (string \<times> bool) list) list) = Inr results
         \<and> ownerRoleAssigned body = False \<and> adminRoleAssigned body = False
         \<and> assignments body = results
         \<and> storage_success body = ([storage_id ''vstorage''] = [] \<or> all_succeeded results)
         \<and> success body = (False \<and> False \<and> storage_success body)"
    using thm1 [THEN conjunct2, THEN conjunct2, THEN conjunct2, THEN conjunct2, THEN conjunct2,
                THEN conjunct2, THEN conjunct2] wf
    unfolding disc Let_def r1 fst_conv snd_conv r2
    by simp
  then have e: "\<exists>code body.
         assign_all refusing_env [] test_principal test_vault ''test-sub'' None
           = (RoleResponse code body, [],
              [create_call refusing_env test_vault owner_definition test_principal,
               create_call refusing_env test_vault admin_definition test_principal])
         \<and> \<not> ownerRoleAssigned body \<and> \<not> adminRoleAssigned body \<and> \<not> success body"
    by auto
  from a b c d e show ?thesis by blast
qed

text \<open>
  C6 as the specification states it fails: a provider error on the vault pairs
  decides what happens to the storage pairs. When the create calls at the vault are
  refused, the one discovered storage account gets no call at all, although a create
  call there would be accepted; when only the Owner create call is refused, the
  storage pairs mapped from Owner are replaced by the pair mapped from Administrator.
\<close>

theorem vault_failure_changes_storage_pairs:
  "discover_associated_storage_accounts vault_refusing_env test_vault = [storage_id ''vstorage'']
   \<and> snd (snd (assign_all vault_refusing_env [] test_principal test_vault ''test-sub'' None))
       = [CreateCall test_vault (''new:'' @ owner_definition) owner_definition test_principal ''ServicePrincipal'',
          CreateCall test_vault (''new:'' @ admin_definition) admin_definition test_principal ''ServicePrincipal'']
   \<and> fst (assign_role_to_storage_account vault_refusing_env [] (storage_id ''vstorage'')
             (role_definition ''test-sub'' STORAGE_ACCOUNT_CONTRIBUTOR_ROLE_ID) test_principal)
   \<and> snd (snd (assign_all owner_refusing_env [] test_principal test_vault ''test-sub'' None))
       = [CreateCall test_vault (''new:'' @ owner_definition) owner_definition test_principal ''ServicePrincipal'',
          CreateCall test_vault (''new:'' @ admin_definition) admin_definition test_principal ''ServicePrincipal'',
          CreateCall (storage_id ''vstorage'')
            (''new:'' @ role_definition ''test-sub'' STORAGE_BLOB_DATA_CONTRIBUTOR_ROLE_ID)
            (role_definition ''test-sub'' STORAGE_BLOB_DATA_CONTRIBUTOR_ROLE_ID)
            test_principal ''ServicePrincipal'']"
  by code_simp




section \<open>The creator check\<close>

text \<open>
  C1 fails on the code. The vault carries a \<open>CreatedByID\<close> tag that differs from the
  caller's id, and the handler answers 200 after creating the Owner and the
  Administrator assignment, with the warning of a missing tag: \<open>vault_info\<close> is the
  coroutine object of the call that was not awaited, not a dictionary, so no tag is
  ever read. With the dictionary that awaiting gives, the same code answers 403 and
  issues no call, which is what the handler's docstring and its tests
  \<open>test_vault_creator_verification_failure\<close> and
  \<open>test_vault_creator_verification_success\<close> expect.
\<close>

theorem creator_check_skipped:
  "get_vault_info (vault_created_by other_principal) test_vault = Some [(''CreatedByID'', other_principal)]
   \<and> lower other_principal \<noteq> lower test_principal
   \<and> direct_vault_rbac_processor (vault_created_by other_principal) [] test_principal test_vault ''test-sub''
     = (RoleResponse 200
          \<lparr>success = True, ownerRoleAssigned = True, adminRoleAssigned = True,
           resourceUri = test_vault, userId = test_principal, isCreator = PyNone,
           discovered = 0, assignments = [], storage_success = True\<rparr>,
        [new_assignment quiet_env test_vault owner_definition test_principal,
         new_assignment quiet_env test_vault admin_definition test_principal],
        [create_call quiet_env test_vault owner_definition test_principal,
         create_call quiet_env test_vault admin_definition test_principal],
        [Warning ''Vault does not have CreatedByID tag, cannot verify creator''])
   \<and> process_vault_info (vault_created_by other_principal) [] test_principal test_vault ''test-sub''
        (awaited (get_vault_info (vault_created_by other_principal) test_vault))
     = (Unauthorized test_principal other_principal, [], [],
        [Error ''User is not the creator of the vault''])"
  by code_simp

end
